theory Spec2Isabelle
  imports
    Complex_Main
    "HOL-Library.Word"
    "HOL-Library.AList"
    "HOL-Library.Char_ord"
    "HOL-Library.List_Lexorder"
begin

unbundle bit_operations_syntax

section \<open>The file-system manager of \<^verbatim>\<open>src/main.py\<close>\<close>

text \<open>
  The class \<^verbatim>\<open>FileSystemManager\<close> keeps a virtual directory tree, a file table and a pool
  of simulated blocks in memory, mirrors files into a directory of the host, caches reads
  and keeps dated backups. It is embedded here as functions on one record, \<open>fs_state\<close>:
  the fields of the Python object first, then the part of the host the object talks to
  (the files under \<^verbatim>\<open>root_dir\<close>, the backup directory, the metadata file, the clock).

  Conventions of the embedding.
  \<^item> A Python \<^verbatim>\<open>dict\<close> is an association list handled with \<open>map_of\<close>, \<open>AList.update\<close>
    and \<open>AList.delete\<close>: an update keeps the position of a key that is present and appends
    a new one, as a \<^verbatim>\<open>dict\<close> keeps insertion order.
  \<^item> A Python \<^verbatim>\<open>str\<close> is a \<open>string\<close> of bytes, its UTF-8 encoding, so
    \<^verbatim>\<open>len(content.encode())\<close> is \<open>length\<close>. Python integers are \<open>int\<close>.
  \<^item> Every public method wraps its body in \<^verbatim>\<open>try ... except Exception\<close>; each place
    where the body can raise is a branch that returns the failure value with the state as
    the body had left it.
  \<^item> The fields \<^verbatim>\<open>created\<close>, \<^verbatim>\<open>modified\<close> and \<^verbatim>\<open>last_updated\<close> are written and copied
    but never read by a decision of the program; the records leave them out.
  \<^item> Physical objects are identified by the path string handed to the host (relative to
    \<^verbatim>\<open>root_dir\<close>); the host's resolution of \<^verbatim>\<open>.\<close>, \<^verbatim>\<open>..\<close> and doubled slashes is not
    modelled, and the program's own files (metadata file, backup directory) live in
    fields of their own.
\<close>

subsection \<open>MD5, as \<^verbatim>\<open>hashlib.md5(...).hexdigest()\<close> computes it (RFC 1321)\<close>

definition md5_shifts :: "nat list" where
  "md5_shifts =
     [7, 12, 17, 22, 7, 12, 17, 22, 7, 12, 17, 22, 7, 12, 17, 22,
      5, 9, 14, 20, 5, 9, 14, 20, 5, 9, 14, 20, 5, 9, 14, 20,
      4, 11, 16, 23, 4, 11, 16, 23, 4, 11, 16, 23, 4, 11, 16, 23,
      6, 10, 15, 21, 6, 10, 15, 21, 6, 10, 15, 21, 6, 10, 15, 21]"

definition md5_consts :: "32 word list" where
  "md5_consts =
     [0xd76aa478, 0xe8c7b756, 0x242070db, 0xc1bdceee, 0xf57c0faf, 0x4787c62a, 0xa8304613, 0xfd469501,
      0x698098d8, 0x8b44f7af, 0xffff5bb1, 0x895cd7be, 0x6b901122, 0xfd987193, 0xa679438e, 0x49b40821,
      0xf61e2562, 0xc040b340, 0x265e5a51, 0xe9b6c7aa, 0xd62f105d, 0x02441453, 0xd8a1e681, 0xe7d3fbc8,
      0x21e1cde6, 0xc33707d6, 0xf4d50d87, 0x455a14ed, 0xa9e3e905, 0xfcefa3f8, 0x676f02d9, 0x8d2a4c8a,
      0xfffa3942, 0x8771f681, 0x6d9d6122, 0xfde5380c, 0xa4beea44, 0x4bdecfa9, 0xf6bb4b60, 0xbebfbc70,
      0x289b7ec6, 0xeaa127fa, 0xd4ef3085, 0x04881d05, 0xd9d4d039, 0xe6db99e5, 0x1fa27cf8, 0xc4ac5665,
      0xf4292244, 0x432aff97, 0xab9423a7, 0xfc93a039, 0x655b59c3, 0x8f0ccc92, 0xffeff47d, 0x85845dd1,
      0x6fa87e4f, 0xfe2ce6e0, 0xa3014314, 0x4e0811a1, 0xf7537e82, 0xbd3af235, 0x2ad7d2bb, 0xeb86d391]"

definition rotl32 :: "nat \<Rightarrow> 32 word \<Rightarrow> 32 word" where
  "rotl32 n w = (push_bit n w) OR (drop_bit (32 - n) w)"

fun le_bytes :: "nat \<Rightarrow> int \<Rightarrow> int list" where
  "le_bytes 0 v = []"
| "le_bytes (Suc k) v = (v mod 256) # le_bytes k (v div 256)"

definition md5_pad :: "int list \<Rightarrow> int list" where
  "md5_pad bs =
     bs @ [128] @ replicate (nat ((55 - int (length bs)) mod 64)) 0
        @ le_bytes 8 (8 * int (length bs))"

fun le_word :: "int list \<Rightarrow> 32 word" where
  "le_word [] = 0"
| "le_word (b # bs) = word_of_int b + 256 * le_word bs"

fun chunks_of :: "nat \<Rightarrow> 'a list \<Rightarrow> 'a list list" where
  "chunks_of n [] = []"
| "chunks_of n (x # xs) =
     (if n = 0 then [x # xs]
      else take n (x # xs) # chunks_of n (drop n (x # xs)))"

type_synonym md5_state = "32 word \<times> 32 word \<times> 32 word \<times> 32 word"

definition md5_round :: "32 word list \<Rightarrow> nat \<Rightarrow> md5_state \<Rightarrow> md5_state" where
  "md5_round m i st =
     (case st of (a, b, c, d) \<Rightarrow>
        let (f, g) =
              (if i < 16 then ((b AND c) OR (NOT b AND d), i)
               else if i < 32 then ((d AND b) OR (NOT d AND c), (5 * i + 1) mod 16)
               else if i < 48 then (b XOR c XOR d, (3 * i + 5) mod 16)
               else (c XOR (b OR NOT d), (7 * i) mod 16));
            f' = f + a + md5_consts ! i + m ! g
        in (d, b + rotl32 (md5_shifts ! i) f', b, c))"

definition md5_chunk :: "md5_state \<Rightarrow> int list \<Rightarrow> md5_state" where
  "md5_chunk st chunk =
     (let m = map le_word (chunks_of 4 chunk) in
      case (st, fold (md5_round m) [0..<64] st) of
        ((a0, b0, c0, d0), (a, b, c, d)) \<Rightarrow> (a0 + a, b0 + b, c0 + c, d0 + d))"

definition hex_digit :: "int \<Rightarrow> char" where
  "hex_digit n = ''0123456789abcdef'' ! nat n"

definition hex_byte :: "int \<Rightarrow> string" where
  "hex_byte b = [hex_digit (b div 16), hex_digit (b mod 16)]"

definition md5 :: "string \<Rightarrow> string" where
  "md5 s =
     (case fold (\<lambda>chunk st. md5_chunk st chunk)
             (chunks_of 64 (md5_pad (map (\<lambda>c. int (of_char c)) s)))
             (0x67452301, 0xefcdab89, 0x98badcfe, 0x10325476) of
        (a, b, c, d) \<Rightarrow>
          concat (map hex_byte (concat (map (\<lambda>w. le_bytes 4 (uint w)) [a, b, c, d]))))"

subsection \<open>Strings and paths (\<^verbatim>\<open>str\<close> methods and \<^verbatim>\<open>posixpath\<close>)\<close>

definition is_slash :: "char \<Rightarrow> bool" where
  "is_slash c = (c = CHR ''/'')"

definition not_slash :: "char \<Rightarrow> bool" where
  "not_slash c = (c \<noteq> CHR ''/'')"

text \<open>\<^verbatim>\<open>s.replace(a, b)\<close> for single characters.\<close>

definition replace_char :: "char \<Rightarrow> char \<Rightarrow> string \<Rightarrow> string" where
  "replace_char a b s = map (\<lambda>c. if c = a then b else c) s"

definition startswith :: "string \<Rightarrow> string \<Rightarrow> bool" where
  "startswith s prefix = (take (length prefix) s = prefix)"

definition endswith_slash :: "string \<Rightarrow> bool" where
  "endswith_slash s = (case rev s of [] \<Rightarrow> False | c # _ \<Rightarrow> is_slash c)"

definition lstrip_slash :: "string \<Rightarrow> string" where
  "lstrip_slash s = dropWhile is_slash s"

definition rstrip_slash :: "string \<Rightarrow> string" where
  "rstrip_slash s = rev (dropWhile is_slash (rev s))"

text \<open>
  \<^verbatim>\<open>os.path.dirname\<close> and \<^verbatim>\<open>os.path.basename\<close>: split after the last slash; the head
  loses its trailing slashes unless it consists of slashes only.
\<close>

definition split_head :: "string \<Rightarrow> string" where
  "split_head p = rev (dropWhile not_slash (rev p))"

definition basename :: "string \<Rightarrow> string" where
  "basename p = rev (takeWhile not_slash (rev p))"

definition dirname :: "string \<Rightarrow> string" where
  "dirname p =
     (let head = split_head p in
      if head \<noteq> [] \<and> \<not> list_all is_slash head then rstrip_slash head else head)"

text \<open>\<^verbatim>\<open>os.path.join(a, b)\<close> for two components.\<close>

definition path_join :: "string \<Rightarrow> string \<Rightarrow> string" where
  "path_join a b =
     (if startswith b ''/'' then b
      else if a = [] \<or> endswith_slash a then a @ b
      else a @ ''/'' @ b)"

text \<open>
  The normalisation every method but \<^verbatim>\<open>list_directory\<close> opens with:
  \<^verbatim>\<open>path = path.replace('\\', '/')\<close>, then a leading slash is forced.
\<close>

definition normalize :: "string \<Rightarrow> string" where
  "normalize p =
     (let q = replace_char (CHR 0x5C) (CHR ''/'') p in
      if startswith q ''/'' then q else ''/'' @ q)"

text \<open>\<^verbatim>\<open>list_directory\<close> also drops one trailing slash, except of the root.\<close>

definition normalize_dir :: "string \<Rightarrow> string" where
  "normalize_dir p =
     (let q = normalize p in
      if q \<noteq> ''/'' \<and> endswith_slash q then butlast q else q)"

text \<open>
  \<^verbatim>\<open>os.path.join(self.root_dir, path.lstrip('/'))\<close>: the physical path, kept relative to
  \<^verbatim>\<open>root_dir\<close> (the empty string is \<^verbatim>\<open>root_dir\<close> itself), and the \<^verbatim>\<open>os.path.dirname\<close> of
  a physical path in the same form.
\<close>

definition physical_path :: "string \<Rightarrow> string" where
  "physical_path p = lstrip_slash p"

definition physical_dirname :: "string \<Rightarrow> string" where
  "physical_dirname k = lstrip_slash (dirname (''/'' @ k))"

text \<open>
  Reading a file opened with \<^verbatim>\<open>open(path, 'r')\<close>: text mode with universal newlines,
  which hands \<^verbatim>\<open>\r\n\<close> and a lone \<^verbatim>\<open>\r\<close> to the caller as \<^verbatim>\<open>\n\<close>. Writing in text mode
  on a POSIX host stores the characters as they are.
\<close>

fun universal_newlines :: "string \<Rightarrow> string" where
  "universal_newlines [] = []"
| "universal_newlines [c] = (if c = CHR 0x0D then [CHR 0x0A] else [c])"
| "universal_newlines (c # d # cs) =
     (if c = CHR 0x0D \<and> d = CHR 0x0A then CHR 0x0A # universal_newlines cs
      else if c = CHR 0x0D then CHR 0x0A # universal_newlines (d # cs)
      else c # universal_newlines (d # cs))"

text \<open>Slices \<^verbatim>\<open>xs[:n]\<close> and \<^verbatim>\<open>xs[n:]\<close> (a negative \<open>n\<close> counts from the end) and \<^verbatim>\<open>range\<close>.\<close>

definition py_take :: "int \<Rightarrow> 'a list \<Rightarrow> 'a list" where
  "py_take n xs = (if 0 \<le> n then take (nat n) xs else take (length xs - nat (- n)) xs)"

definition py_drop :: "int \<Rightarrow> 'a list \<Rightarrow> 'a list" where
  "py_drop n xs = (if 0 \<le> n then drop (nat n) xs else drop (length xs - nat (- n)) xs)"

definition py_range :: "int \<Rightarrow> int \<Rightarrow> int list" where
  "py_range a b = [a..b - 1]"

subsection \<open>The data model\<close>

text \<open>An entry of a directory's \<^verbatim>\<open>contents\<close>: \<^verbatim>\<open>{'type': 'file', 'file_id': ...}\<close> or
  \<^verbatim>\<open>{'type': 'directory', 'path': ...}\<close>.\<close>

datatype child_ref = FileRef string | DirRef string

record dir_entry =
  contents :: "(string \<times> child_ref) list"

record file_record =
  path :: string
  fsize :: int
  blocks :: "int list"
  checksum :: string

text \<open>What \<^verbatim>\<open>json.load\<close> returns from a metadata file: each key may be missing
  (\<^verbatim>\<open>data.get(key, default)\<close>).\<close>

record snapshot =
  snap_block_size :: "int option"
  snap_free_blocks :: "int list option"
  snap_file_table :: "(string \<times> file_record) list option"
  snap_directory_structure :: "(string \<times> dir_entry) list option"

text \<open>
  A file of the program's own: the bytes of any file copied or written there (a backup
  copy of a user file, a damaged metadata file), the JSON text \<^verbatim>\<open>json.dump\<close> wrote for a
  snapshot, or such a text cut short by a \<^verbatim>\<open>json.dump\<close> that raised.
\<close>

datatype dfile = Bytes string | Json snapshot | Partial

text \<open>An object under \<^verbatim>\<open>root_dir\<close>.\<close>

datatype pnode = PFile string | PDir

text \<open>What can go wrong inside \<^verbatim>\<open>_save_metadata\<close>: the copy of the old metadata file,
  opening the file for writing, or the dump into the opened (and truncated) file.\<close>

datatype save_fault = NoFault | CopyFails | OpenFails | DumpFails

text \<open>The clock: \<^verbatim>\<open>time.time()\<close> and \<^verbatim>\<open>datetime.now().strftime('%Y%m%d_%H%M%S')\<close>.\<close>

record clock =
  clock_time :: real
  clock_stamp :: string

record fs_state =
  block_size :: int
  free_blocks :: "int list"
  file_table :: "(string \<times> file_record) list"
  directory_structure :: "(string \<times> dir_entry) list"
  read_cache :: "(string \<times> string) list"
  cache_max_size :: int
  cache_ttl :: int
  cache_timestamps :: "(string \<times> real) list"
  disk :: "(string \<times> pnode) list"
  backup_dir :: "(string \<times> dfile) list"
  metadata_file :: "dfile option"
  now :: clock
  save_fault :: save_fault

definition has_key :: "('k \<times> 'v) list \<Rightarrow> 'k \<Rightarrow> bool" where
  "has_key d k = (map_of d k \<noteq> None)"

subsection \<open>The host's files\<close>

definition exists_path :: "(string \<times> pnode) list \<Rightarrow> string \<Rightarrow> bool" where
  "exists_path d k = (k = [] \<or> has_key d k)"

definition is_dir :: "(string \<times> pnode) list \<Rightarrow> string \<Rightarrow> bool" where
  "is_dir d k = (k = [] \<or> map_of d k = Some PDir)"

text \<open>
  \<^verbatim>\<open>os.makedirs(name, exist_ok=True)\<close>: the parent first when it is missing, then
  \<^verbatim>\<open>mkdir\<close>, whose failure is forgiven when the name is a directory already. The
  recursion follows the name's ancestors, longest first.
\<close>

fun ancestors_from :: "string \<Rightarrow> string \<Rightarrow> string list" where
  "ancestors_from acc [] = [acc]"
| "ancestors_from acc (c # cs) =
     (if is_slash c then acc # ancestors_from (acc @ [c]) cs
      else ancestors_from (acc @ [c]) cs)"

definition ancestors :: "string \<Rightarrow> string list" where
  "ancestors k =
     rev (filter (\<lambda>a. a \<noteq> [] \<and> \<not> endswith_slash a) (ancestors_from [] k))"

fun makedirs_chain :: "(string \<times> pnode) list \<Rightarrow> string list \<Rightarrow> (string \<times> pnode) list option" where
  "makedirs_chain d [] = Some d"
| "makedirs_chain d (k # up) =
     (case (if up \<noteq> [] \<and> \<not> exists_path d (hd up) then makedirs_chain d up else Some d) of
        None \<Rightarrow> None
      | Some d' \<Rightarrow>
          if exists_path d' k then (if is_dir d' k then Some d' else None)
          else if is_dir d' (physical_dirname k) then Some (AList.update k PDir d')
          else None)"

definition makedirs :: "(string \<times> pnode) list \<Rightarrow> string \<Rightarrow> (string \<times> pnode) list option" where
  "makedirs d k = makedirs_chain d (ancestors k)"

text \<open>\<^verbatim>\<open>open(path, 'w')\<close> and \<^verbatim>\<open>f.write(content)\<close>.\<close>

definition write_text :: "(string \<times> pnode) list \<Rightarrow> string \<Rightarrow> string \<Rightarrow> (string \<times> pnode) list option" where
  "write_text d k content =
     (if k = [] \<or> endswith_slash k \<or> is_dir d k \<or> \<not> is_dir d (physical_dirname k) then None
      else Some (AList.update k (PFile content) d))"

definition read_bytes :: "(string \<times> pnode) list \<Rightarrow> string \<Rightarrow> string option" where
  "read_bytes d k =
     (if endswith_slash k then None
      else case map_of d k of Some (PFile c) \<Rightarrow> Some c | _ \<Rightarrow> None)"

definition read_text :: "(string \<times> pnode) list \<Rightarrow> string \<Rightarrow> string option" where
  "read_text d k = map_option universal_newlines (read_bytes d k)"

text \<open>\<^verbatim>\<open>_calculate_checksum\<close>: the MD5 of the file's bytes, and the empty string when
  reading raises.\<close>

definition calculate_checksum :: "(string \<times> pnode) list \<Rightarrow> string \<Rightarrow> string" where
  "calculate_checksum d k = (case read_bytes d k of Some c \<Rightarrow> md5 c | None \<Rightarrow> [])"

definition is_under :: "string \<Rightarrow> string \<Rightarrow> bool" where
  "is_under k x = (if k = [] then x \<noteq> [] else startswith x (k @ ''/''))"

text \<open>\<^verbatim>\<open>os.remove\<close>, \<^verbatim>\<open>os.rmdir\<close> and \<^verbatim>\<open>shutil.rmtree\<close>.\<close>

definition os_remove :: "(string \<times> pnode) list \<Rightarrow> string \<Rightarrow> (string \<times> pnode) list option" where
  "os_remove d k =
     (case read_bytes d k of Some c \<Rightarrow> Some (AList.delete k d) | None \<Rightarrow> None)"

definition os_rmdir :: "(string \<times> pnode) list \<Rightarrow> string \<Rightarrow> (string \<times> pnode) list option" where
  "os_rmdir d k =
     (if k \<noteq> [] \<and> is_dir d k \<and> \<not> list_ex (\<lambda>(x, n). is_under (rstrip_slash k) x) d
      then Some (AList.delete k d) else None)"

definition rmtree :: "(string \<times> pnode) list \<Rightarrow> string \<Rightarrow> (string \<times> pnode) list option" where
  "rmtree d k =
     (if is_dir d k
      then Some (filter (\<lambda>(x, n). x \<noteq> k \<and> \<not> is_under (rstrip_slash k) x) d)
      else None)"

text \<open>\<^verbatim>\<open>os.listdir\<close>: the names directly under a directory.\<close>

definition listdir :: "(string \<times> pnode) list \<Rightarrow> string \<Rightarrow> string list option" where
  "listdir d k =
     (if is_dir d k
      then Some (concat (map (\<lambda>(x, n).
             if is_under k x
             then (let name = drop (if k = [] then 0 else length k + 1) x in
                   if name \<noteq> [] \<and> list_all not_slash name then [name] else [])
             else []) d))
      else None)"

subsection \<open>The read cache\<close>

text \<open>\<^verbatim>\<open>_check_cache_expiration\<close>\<close>

definition check_cache_expiration :: "fs_state \<Rightarrow> fs_state" where
  "check_cache_expiration s =
     (let current_time = clock_time (now s);
          expired_keys = map fst (filter (\<lambda>(key, timestamp).
              current_time - timestamp > real_of_int (cache_ttl s)) (cache_timestamps s))
      in fold (\<lambda>key s. s\<lparr>read_cache := AList.delete key (read_cache s),
                           cache_timestamps := AList.delete key (cache_timestamps s)\<rparr>)
           expired_keys s)"

text \<open>\<^verbatim>\<open>min(self.cache_timestamps, key=self.cache_timestamps.get)\<close>: the first key with
  the least timestamp.\<close>

fun oldest_entry :: "(string \<times> real) \<Rightarrow> (string \<times> real) list \<Rightarrow> (string \<times> real)" where
  "oldest_entry best [] = best"
| "oldest_entry best (kv # rest) =
     oldest_entry (if snd kv < snd best then kv else best) rest"

text \<open>\<^verbatim>\<open>_add_to_cache\<close>\<close>

definition add_to_cache :: "string \<Rightarrow> string \<Rightarrow> fs_state \<Rightarrow> fs_state" where
  "add_to_cache p content s =
     (let s1 =
        (if int (length (read_cache s)) \<ge> cache_max_size s then
           (case cache_timestamps s of
              [] \<Rightarrow> s
            | kv # rest \<Rightarrow>
                let oldest_key = fst (oldest_entry kv rest) in
                s\<lparr>read_cache := AList.delete oldest_key (read_cache s),
                  cache_timestamps := AList.delete oldest_key (cache_timestamps s)\<rparr>)
         else s)
      in s1\<lparr>read_cache := AList.update p content (read_cache s1),
            cache_timestamps := AList.update p (clock_time (now s1)) (cache_timestamps s1)\<rparr>)"

text \<open>\<^verbatim>\<open>_invalidate_cache(path)\<close> with a path given: only \<^verbatim>\<open>read_cache\<close> loses the entry.\<close>

definition invalidate_cache :: "string \<Rightarrow> fs_state \<Rightarrow> fs_state" where
  "invalidate_cache p s =
     s\<lparr>read_cache := AList.delete (normalize p) (read_cache s)\<rparr>"

text \<open>\<^verbatim>\<open>configure_cache\<close>\<close>

definition configure_cache :: "int \<Rightarrow> int \<Rightarrow> fs_state \<Rightarrow> fs_state" where
  "configure_cache max_size ttl s =
     (let s1 = s\<lparr>cache_max_size := max_size, cache_ttl := ttl, cache_timestamps := []\<rparr> in
      if int (length (read_cache s1)) > max_size
      then s1\<lparr>read_cache := drop (nat (int (length (read_cache s1)) - max_size)) (read_cache s1)\<rparr>
      else s1)"

subsection \<open>The block allocator\<close>

text \<open>\<^verbatim>\<open>max(self.free_blocks) if self.free_blocks else 0\<close>\<close>

definition current_max :: "int list \<Rightarrow> int" where
  "current_max fb = (case fb of [] \<Rightarrow> 0 | b # bs \<Rightarrow> fold max bs b)"

text \<open>\<^verbatim>\<open>_allocate_blocks\<close>: the blocks handed out and the state with the pool left.\<close>

definition allocate_blocks :: "int \<Rightarrow> fs_state \<Rightarrow> int list \<times> fs_state" where
  "allocate_blocks num_blocks s =
     (let pool =
        (if int (length (free_blocks s)) < num_blocks
         then free_blocks s
                @ py_range (current_max (free_blocks s) + 1)
                           (current_max (free_blocks s) + 1 + num_blocks)
         else free_blocks s)
      in (py_take num_blocks pool, s\<lparr>free_blocks := py_drop num_blocks pool\<rparr>))"

text \<open>\<^verbatim>\<open>_free_blocks\<close>\<close>

definition free_blocks_of :: "int list \<Rightarrow> fs_state \<Rightarrow> fs_state" where
  "free_blocks_of bs s = s\<lparr>free_blocks := free_blocks s @ bs\<rparr>"

text \<open>\<^verbatim>\<open>(file_size + self.block_size - 1) // self.block_size\<close>\<close>

definition blocks_needed :: "int \<Rightarrow> int \<Rightarrow> int" where
  "blocks_needed file_size bs = (file_size + bs - 1) div bs"

subsection \<open>The metadata store\<close>

definition snapshot_of :: "fs_state \<Rightarrow> snapshot" where
  "snapshot_of s =
     \<lparr>snap_block_size = Some (block_size s),
      snap_free_blocks = Some (free_blocks s),
      snap_file_table = Some (file_table s),
      snap_directory_structure = Some (directory_structure s)\<rparr>"

text \<open>
  \<^verbatim>\<open>_save_metadata\<close>: when a metadata file exists it is first copied to
  \<^verbatim>\<open>metadata_backup_<stamp>.json\<close>; then the file is opened and the state dumped. The
  whole body sits in \<^verbatim>\<open>try ... except Exception\<close>, which only prints: the method returns
  nothing, whatever happened.
\<close>

definition save_metadata :: "fs_state \<Rightarrow> fs_state" where
  "save_metadata s =
     (case (case metadata_file s of
              None \<Rightarrow> Some s
            | Some old \<Rightarrow>
                if save_fault s = CopyFails then None
                else Some (s\<lparr>backup_dir :=
                       AList.update (''metadata_backup_'' @ clock_stamp (now s) @ ''.json'')
                         old (backup_dir s)\<rparr>)) of
        None \<Rightarrow> s
      | Some s1 \<Rightarrow>
          if save_fault s1 = OpenFails then s1
          else if save_fault s1 = DumpFails then s1\<lparr>metadata_file := Some Partial\<rparr>
          else s1\<lparr>metadata_file := Some (Json (snapshot_of s1))\<rparr>)"

text \<open>\<^verbatim>\<open>_initialize_file_system\<close>\<close>

definition initialize_file_system :: "fs_state \<Rightarrow> fs_state" where
  "initialize_file_system s =
     save_metadata (s\<lparr>free_blocks := py_range 1 1001,
                      directory_structure := [(''/'', \<lparr>contents = []\<rparr>)],
                      file_table := []\<rparr>)"

text \<open>The four assignments from \<^verbatim>\<open>data.get(key, default)\<close>.\<close>

definition adopt :: "snapshot \<Rightarrow> fs_state \<Rightarrow> fs_state" where
  "adopt d s =
     s\<lparr>block_size := (case snap_block_size d of None \<Rightarrow> 4096 | Some b \<Rightarrow> b),
       free_blocks := (case snap_free_blocks d of None \<Rightarrow> [] | Some f \<Rightarrow> f),
       file_table := (case snap_file_table d of None \<Rightarrow> [] | Some t \<Rightarrow> t),
       directory_structure := (case snap_directory_structure d of None \<Rightarrow> [] | Some t \<Rightarrow> t)\<rparr>"

text \<open>
  \<^verbatim>\<open>json.load(f)\<close> and the four \<^verbatim>\<open>data.get\<close> that follow it. A text written by
  \<^verbatim>\<open>json.dump\<close> gives back the snapshot dumped; a text cut short does not parse (its
  closing brace is missing). On any other bytes the result is the one of the JSON reader,
  a parameter \<open>parse\<close> of the model: \<open>Some d\<close> when the text is a JSON object, with the
  values it has under the four keys, and \<open>None\<close> when \<^verbatim>\<open>json.load\<close> or \<^verbatim>\<open>data.get\<close> raises (a
  malformed text, a JSON value that is no object).
\<close>

type_synonym json_reader = "string \<Rightarrow> snapshot option"

definition json_load :: "json_reader \<Rightarrow> dfile \<Rightarrow> snapshot option" where
  "json_load parse f =
     (case f of Json d \<Rightarrow> Some d | Bytes text \<Rightarrow> parse text | Partial \<Rightarrow> None)"

text \<open>
  Python's recursion limit: a recursion deeper than this raises \<^verbatim>\<open>RecursionError\<close>, an
  \<^verbatim>\<open>Exception\<close>, which the \<^verbatim>\<open>except\<close> clause of the frame it is raised in catches.
  The recursive methods take the depth left as their first argument.
\<close>

definition recursion_limit :: nat where
  "recursion_limit = 1000"

text \<open>
  \<^verbatim>\<open>_scan_directory\<close>: \<open>scan_items\<close> is its \<^verbatim>\<open>for\<close> loop. An exception (a directory
  that cannot be listed, a division by a zero block size) ends the loop of the directory
  at hand and is printed.
\<close>

fun scan_directory :: "nat \<Rightarrow> string \<Rightarrow> string \<Rightarrow> fs_state \<Rightarrow> fs_state"
  and scan_items :: "nat \<Rightarrow> string \<Rightarrow> string \<Rightarrow> string list \<Rightarrow> fs_state \<Rightarrow> fs_state" where
  "scan_directory 0 physical virtual s = s"
| "scan_directory (Suc n) physical virtual s =
     (case listdir (disk s) physical of
        None \<Rightarrow> s
      | Some items \<Rightarrow> scan_items n physical virtual items s)"
| "scan_items n physical virtual [] s = s"
| "scan_items n physical virtual (item # items) s =
     (if item = ''fs_metadata.json'' \<or> item = ''.backups''
      then scan_items n physical virtual items s
      else
        let item_physical_path = path_join physical item;
            item_virtual_path = replace_char (CHR 0x5C) (CHR ''/'') (path_join virtual item)
        in if is_dir (disk s) item_physical_path
           then scan_items n physical virtual items
                  (scan_directory n item_physical_path item_virtual_path
                     (s\<lparr>directory_structure :=
                          AList.update item_virtual_path \<lparr>contents = []\<rparr> (directory_structure s)\<rparr>))
           else
             (case read_bytes (disk s) item_physical_path of
                None \<Rightarrow> s
              | Some data \<Rightarrow>
                  if block_size s = 0 then s
                  else
                    let file_size = int (length data);
                        file_id = md5 item_virtual_path;
                        (allocated_blocks, s1) =
                           allocate_blocks (blocks_needed file_size (block_size s)) s;
                        s2 = s1\<lparr>file_table := AList.update file_id
                                 \<lparr>path = item_virtual_path, fsize = file_size,
                                  blocks = allocated_blocks,
                                  checksum = calculate_checksum (disk s1) item_physical_path\<rparr>
                                 (file_table s1)\<rparr>;
                        parent_dir = replace_char (CHR 0x5C) (CHR ''/'') (dirname item_virtual_path);
                        parent = (case map_of (directory_structure s2) parent_dir of
                                    None \<Rightarrow> \<lparr>contents = []\<rparr> | Some e \<Rightarrow> e);
                        s3 = s2\<lparr>directory_structure := AList.update parent_dir
                                 (parent\<lparr>contents := AList.update item (FileRef file_id) (contents parent)\<rparr>)
                                 (directory_structure s2)\<rparr>
                    in scan_items n physical virtual items s3))"

text \<open>
  \<^verbatim>\<open>_recover_metadata\<close>: of the files named \<^verbatim>\<open>metadata_backup_...\<close> only the last in
  sorted order is opened; when there is none, or that one does not load, the tree under
  \<^verbatim>\<open>root_dir\<close> is scanned into a fresh file system.
\<close>

definition rescan :: "fs_state \<Rightarrow> fs_state" where
  "rescan s =
     save_metadata (scan_directory recursion_limit [] ''/'' (initialize_file_system s))"

definition recover_metadata :: "json_reader \<Rightarrow> fs_state \<Rightarrow> fs_state" where
  "recover_metadata parse s =
     (let backup_files = filter (\<lambda>f. startswith f ''metadata_backup_'') (map fst (backup_dir s)) in
      case (if backup_files \<noteq> []
            then (let latest_backup = last (sort backup_files) in
                  case map_of (backup_dir s) latest_backup of
                    None \<Rightarrow> None
                  | Some f \<Rightarrow> map_option (\<lambda>d. adopt d s) (json_load parse f))
            else None) of
        Some s' \<Rightarrow> s'
      | None \<Rightarrow> rescan s)"

text \<open>\<^verbatim>\<open>_load_metadata\<close>\<close>

definition load_metadata :: "json_reader \<Rightarrow> fs_state \<Rightarrow> fs_state" where
  "load_metadata parse s =
     (case metadata_file s of
        None \<Rightarrow> initialize_file_system s
      | Some f \<Rightarrow>
          (case json_load parse f of
             Some d \<Rightarrow> adopt d s
           | None \<Rightarrow> recover_metadata parse s))"

text \<open>\<^verbatim>\<open>__init__\<close>, on a host given by the last five fields of the argument.\<close>

definition fs_init :: "json_reader \<Rightarrow> fs_state \<Rightarrow> fs_state" where
  "fs_init parse host =
     load_metadata parse (host\<lparr>block_size := 4096, free_blocks := [], file_table := [],
                         directory_structure := [], read_cache := [], cache_max_size := 100,
                         cache_ttl := 300, cache_timestamps := []\<rparr>)"

text \<open>A host with nothing under \<^verbatim>\<open>root_dir\<close> yet, and the manager started on it: there
  is no metadata file, so nothing is parsed, whatever the JSON reader.\<close>

definition empty_host :: "clock \<Rightarrow> fs_state" where
  "empty_host t =
     \<lparr>block_size = 0, free_blocks = [], file_table = [], directory_structure = [],
      read_cache = [], cache_max_size = 0, cache_ttl = 0, cache_timestamps = [],
      disk = [], backup_dir = [], metadata_file = None, now = t, save_fault = NoFault\<rparr>"

definition fresh :: "clock \<Rightarrow> fs_state" where
  "fresh t = fs_init (\<lambda>text. None) (empty_host t)"

subsection \<open>Backups of files and their recovery\<close>

text \<open>\<^verbatim>\<open>_backup_file\<close>: a copy named by the relative path with slashes flattened, then
  the time stamp. Copying a directory raises, which is caught.\<close>

definition backup_file :: "string \<Rightarrow> fs_state \<Rightarrow> bool \<times> fs_state" where
  "backup_file file_path s =
     (if \<not> exists_path (disk s) file_path then (False, s)
      else
        let backup_filename =
              replace_char (CHR ''/'') (CHR ''_'') file_path @ ''_'' @ clock_stamp (now s)
        in case read_bytes (disk s) file_path of
             None \<Rightarrow> (False, s)
           | Some data \<Rightarrow>
               (True, s\<lparr>backup_dir := AList.update backup_filename (Bytes data) (backup_dir s)\<rparr>))"

text \<open>
  The comparison \<^verbatim>\<open>backup_checksum == self.file_table[file_id]['checksum']\<close>. The digest
  of a file that holds a metadata snapshot is not modelled; it is taken to differ from
  every stored checksum.
\<close>

definition checksum_matches :: "dfile \<Rightarrow> string \<Rightarrow> bool" where
  "checksum_matches f stored = (case f of Bytes data \<Rightarrow> md5 data = stored | _ \<Rightarrow> False)"

text \<open>\<^verbatim>\<open>shutil.copy2(backup_path, physical_path)\<close>: into the directory when the
  destination is one.\<close>

definition copy2_to_disk :: "string \<Rightarrow> dfile \<Rightarrow> string \<Rightarrow> (string \<times> pnode) list
    \<Rightarrow> (string \<times> pnode) list option" where
  "copy2_to_disk name f dst d =
     (case f of
        Bytes data \<Rightarrow>
          write_text d (if is_dir d dst then path_join dst name else dst) data
      | _ \<Rightarrow> None)"

text \<open>The loop of \<^verbatim>\<open>_recover_file\<close> over the backups, newest name first.\<close>

fun restore_first :: "string list \<Rightarrow> string \<Rightarrow> string \<Rightarrow> fs_state \<Rightarrow> bool \<times> fs_state" where
  "restore_first [] stored physical s = (False, s)"
| "restore_first (backup # rest) stored physical s =
     (case map_of (backup_dir s) backup of
        None \<Rightarrow> restore_first rest stored physical s
      | Some f \<Rightarrow>
          if checksum_matches f stored
          then (case copy2_to_disk backup f physical (disk s) of
                  None \<Rightarrow> (False, s)
                | Some d \<Rightarrow> (True, s\<lparr>disk := d\<rparr>))
          else restore_first rest stored physical s)"

text \<open>\<^verbatim>\<open>_recover_file\<close>\<close>

definition recover_file :: "string \<Rightarrow> string \<Rightarrow> fs_state \<Rightarrow> bool \<times> fs_state" where
  "recover_file file_id physical s =
     (case map_of (file_table s) file_id of
        None \<Rightarrow> (False, s)
      | Some r \<Rightarrow>
          let backup_prefix = replace_char (CHR ''/'') (CHR ''_'') physical @ ''_'';
              backups = filter (\<lambda>f. startswith f backup_prefix) (map fst (backup_dir s))
          in if backups = [] then (False, s)
             else restore_first (rev (sort backups)) (checksum r) physical s)"

subsection \<open>Files\<close>

text \<open>\<^verbatim>\<open>create_file\<close>\<close>

definition create_file :: "string \<Rightarrow> string \<Rightarrow> fs_state \<Rightarrow> bool \<times> fs_state" where
  "create_file p content s =
     (let path = normalize p; parent_dir = dirname path in
      case map_of (directory_structure s) parent_dir of
        None \<Rightarrow> (False, s)
      | Some parent \<Rightarrow>
          let file_name = basename path in
          if has_key (contents parent) file_name then (False, s)
          else
            let physical = physical_path path in
            case makedirs (disk s) (physical_dirname physical) of
              None \<Rightarrow> (False, s)
            | Some d1 \<Rightarrow>
                (case write_text d1 physical content of
                   None \<Rightarrow> (False, s\<lparr>disk := d1\<rparr>)
                 | Some d2 \<Rightarrow>
                     let s1 = s\<lparr>disk := d2\<rparr>; file_size = int (length content) in
                     if block_size s1 = 0 then (False, s1)
                     else
                       let (allocated_blocks, s2) =
                              allocate_blocks (blocks_needed file_size (block_size s1)) s1;
                           file_id = md5 path;
                           s3 = s2\<lparr>file_table := AList.update file_id
                                    \<lparr>path = path, fsize = file_size, blocks = allocated_blocks,
                                     checksum = calculate_checksum (disk s2) physical\<rparr>
                                    (file_table s2)\<rparr>;
                           s4 = s3\<lparr>directory_structure := AList.update parent_dir
                                    (parent\<lparr>contents :=
                                       AList.update file_name (FileRef file_id) (contents parent)\<rparr>)
                                    (directory_structure s3)\<rparr>
                       in (True, save_metadata s4)))"

text \<open>\<^verbatim>\<open>read_file\<close> (the method of the class; the module-level function of the same
  name further down in the source is never called).\<close>

definition read_file :: "string \<Rightarrow> fs_state \<Rightarrow> string option \<times> fs_state" where
  "read_file p s =
     (let path = normalize p; s1 = check_cache_expiration s in
      case map_of (read_cache s1) path of
        Some cached \<Rightarrow> (Some cached, s1)
      | None \<Rightarrow>
          (case map_of (directory_structure s1) (dirname path) of
             None \<Rightarrow> (None, s1)
           | Some parent \<Rightarrow>
               (case map_of (contents parent) (basename path) of
                  None \<Rightarrow> (None, s1)
                | Some (DirRef sub) \<Rightarrow> (None, s1)
                | Some (FileRef file_id) \<Rightarrow>
                    let physical = physical_path path;
                        current_checksum = calculate_checksum (disk s1) physical
                    in case map_of (file_table s1) file_id of
                         None \<Rightarrow> (None, s1)
                       | Some r \<Rightarrow>
                           let s2 = (if current_checksum \<noteq> checksum r
                                     then snd (recover_file file_id physical s1) else s1)
                           in case read_text (disk s2) physical of
                                None \<Rightarrow> (None, s2)
                              | Some content \<Rightarrow> (Some content, add_to_cache path content s2))))"

text \<open>\<^verbatim>\<open>delete_file\<close>\<close>

definition delete_file :: "string \<Rightarrow> fs_state \<Rightarrow> bool \<times> fs_state" where
  "delete_file p s =
     (let path = normalize p; parent_dir = dirname path; file_name = basename path in
      case map_of (directory_structure s) parent_dir of
        None \<Rightarrow> (False, s)
      | Some parent \<Rightarrow>
          (case map_of (contents parent) file_name of
             None \<Rightarrow> (False, s)
           | Some (DirRef sub) \<Rightarrow> (False, s)
           | Some (FileRef file_id) \<Rightarrow>
               let physical = physical_path path;
                   s1 = snd (backup_file physical s)
               in case map_of (file_table s1) file_id of
                    None \<Rightarrow> (False, s1)
                  | Some r \<Rightarrow>
                      let s2 = free_blocks_of (blocks r) s1;
                          s3 = s2\<lparr>file_table := AList.delete file_id (file_table s2)\<rparr>;
                          s4 = s3\<lparr>directory_structure := AList.update parent_dir
                                   (parent\<lparr>contents := AList.delete file_name (contents parent)\<rparr>)
                                   (directory_structure s3)\<rparr>
                      in if exists_path (disk s4) physical
                         then (case os_remove (disk s4) physical of
                                 None \<Rightarrow> (False, s4)
                               | Some d \<Rightarrow> (True, save_metadata (s4\<lparr>disk := d\<rparr>)))
                         else (True, save_metadata s4)))"

subsection \<open>Directories\<close>

text \<open>\<^verbatim>\<open>create_directory\<close>, which calls itself on a missing parent.\<close>

fun create_directory_depth :: "nat \<Rightarrow> string \<Rightarrow> fs_state \<Rightarrow> bool \<times> fs_state" where
  "create_directory_depth 0 p s = (False, s)"
| "create_directory_depth (Suc n) p s =
     (let path = normalize p in
      if has_key (directory_structure s) path then (False, s)
      else
        let parent_dir = dirname path;
            (ok, s1) = (if parent_dir \<noteq> [] \<and> \<not> has_key (directory_structure s) parent_dir
                        then create_directory_depth n parent_dir s else (True, s))
        in if \<not> ok then (False, s1)
           else
             (case makedirs (disk s1) (physical_path path) of
                None \<Rightarrow> (False, s1)
              | Some d \<Rightarrow>
                  let s2 = s1\<lparr>disk := d,
                              directory_structure :=
                                AList.update path \<lparr>contents = []\<rparr> (directory_structure s1)\<rparr>
                  in if path \<noteq> ''/''
                     then (case map_of (directory_structure s2) parent_dir of
                             None \<Rightarrow> (False, s2)
                           | Some parent \<Rightarrow>
                               (True, save_metadata (s2\<lparr>directory_structure :=
                                  AList.update parent_dir
                                    (parent\<lparr>contents :=
                                       AList.update (basename path) (DirRef path) (contents parent)\<rparr>)
                                    (directory_structure s2)\<rparr>)))
                     else (True, save_metadata s2)))"

definition create_directory :: "string \<Rightarrow> fs_state \<Rightarrow> bool \<times> fs_state" where
  "create_directory p s = create_directory_depth recursion_limit p s"

text \<open>\<^verbatim>\<open>list_directory\<close>: the name, the path and, for each child, the size of a file or
  the number of entries of a directory.\<close>

datatype child_info = FileInfo int | DirInfo nat

text \<open>The loop over \<^verbatim>\<open>dir_entry['contents'].items()\<close>, in the order of the dictionary;
  \<open>result\<close> is \<^verbatim>\<open>result['contents']\<close> as filled so far.\<close>

fun list_children :: "(string \<times> child_ref) list \<Rightarrow> fs_state \<Rightarrow> (string \<times> child_info) list
    \<Rightarrow> (string \<times> child_info) list option" where
  "list_children [] s result = Some result"
| "list_children ((name, entry) # rest) s result =
     (case (case entry of
              FileRef file_id \<Rightarrow> map_option (\<lambda>r. FileInfo (fsize r)) (map_of (file_table s) file_id)
            | DirRef subdir_path \<Rightarrow>
                map_option (\<lambda>e. DirInfo (length (contents e)))
                  (map_of (directory_structure s) subdir_path)) of
        None \<Rightarrow> None
      | Some info \<Rightarrow> list_children rest s (AList.update name info result))"

definition list_directory :: "string \<Rightarrow> fs_state \<Rightarrow> (string \<times> string \<times> (string \<times> child_info) list) option" where
  "list_directory p s =
     (let path = normalize_dir p in
      case map_of (directory_structure s) path of
        None \<Rightarrow> None
      | Some dir_entry \<Rightarrow>
          (case list_children (contents dir_entry) s [] of
             None \<Rightarrow> None
           | Some infos \<Rightarrow>
               Some (if basename path = [] then ''/'' else basename path, path, infos)))"

text \<open>
  \<^verbatim>\<open>delete_directory\<close>: with \<^verbatim>\<open>recursive\<close> it first walks the children it had on
  entry, files through \<^verbatim>\<open>delete_file\<close> and directories through itself, ignoring what
  they return.
\<close>

fun delete_directory_depth :: "nat \<Rightarrow> string \<Rightarrow> bool \<Rightarrow> fs_state \<Rightarrow> bool \<times> fs_state" where
  "delete_directory_depth 0 p recursive s = (False, s)"
| "delete_directory_depth (Suc n) p recursive s =
     (let path = normalize p in
      if path = ''/'' then (False, s)
      else
        case map_of (directory_structure s) path of
          None \<Rightarrow> (False, s)
        | Some dir_entry \<Rightarrow>
            if contents dir_entry \<noteq> [] \<and> \<not> recursive then (False, s)
            else
              let s1 = (if recursive
                        then fold (\<lambda>(name, entry) s.
                               case entry of
                                 FileRef file_id \<Rightarrow> snd (delete_file (path_join path name) s)
                               | DirRef subdir_path \<Rightarrow>
                                   snd (delete_directory_depth n subdir_path True s))
                             (contents dir_entry) s
                        else s);
                  parent_dir = dirname path;
                  dir_name = basename path
              in case map_of (directory_structure s1) parent_dir of
                   None \<Rightarrow> (False, s1)
                 | Some parent \<Rightarrow>
                     let s2 = s1\<lparr>directory_structure := AList.update parent_dir
                                  (parent\<lparr>contents := AList.delete dir_name (contents parent)\<rparr>)
                                  (directory_structure s1)\<rparr>
                     in if \<not> has_key (directory_structure s2) path then (False, s2)
                        else
                          let s3 = s2\<lparr>directory_structure :=
                                       AList.delete path (directory_structure s2)\<rparr>;
                              physical = physical_path path
                          in if exists_path (disk s3) physical
                             then (case os_rmdir (disk s3) physical of
                                     Some d \<Rightarrow> (True, save_metadata (s3\<lparr>disk := d\<rparr>))
                                   | None \<Rightarrow>
                                       if recursive
                                       then (case rmtree (disk s3) physical of
                                               None \<Rightarrow> (False, s3)
                                             | Some d \<Rightarrow> (True, save_metadata (s3\<lparr>disk := d\<rparr>)))
                                       else (True, save_metadata s3))
                             else (True, save_metadata s3))"

definition delete_directory :: "string \<Rightarrow> bool \<Rightarrow> fs_state \<Rightarrow> bool \<times> fs_state" where
  "delete_directory p recursive s = delete_directory_depth recursion_limit p recursive s"

subsection \<open>Writing\<close>

text \<open>The branch of \<^verbatim>\<open>write_file\<close> for a name that is in its parent's contents: the
  entry's \<^verbatim>\<open>file_id\<close> is read (a directory entry has none, a \<^verbatim>\<open>KeyError\<close>), the old
  blocks are freed, the old content is backed up, and the new content is written.\<close>

definition write_existing :: "string \<Rightarrow> string \<Rightarrow> child_ref \<Rightarrow> fs_state \<Rightarrow> bool \<times> fs_state" where
  "write_existing norm_path content file_entry s2 =
     (case file_entry of
        DirRef sub \<Rightarrow> (False, s2)
      | FileRef file_id \<Rightarrow>
          (case map_of (file_table s2) file_id of
             None \<Rightarrow> (False, s2)
           | Some r \<Rightarrow>
               let s3 = free_blocks_of (blocks r) s2;
                   physical = physical_path norm_path;
                   s4 = snd (backup_file physical s3)
               in case write_text (disk s4) physical content of
                    None \<Rightarrow> (False, s4)
                  | Some d \<Rightarrow>
                      let s5 = s4\<lparr>disk := d\<rparr>; file_size = int (length content) in
                      if block_size s5 = 0 then (False, s5)
                      else
                        let (allocated_blocks, s6) =
                               allocate_blocks (blocks_needed file_size (block_size s5)) s5;
                            s7 = s6\<lparr>file_table := AList.update file_id
                                     (r\<lparr>fsize := file_size, blocks := allocated_blocks,
                                        checksum := calculate_checksum (disk s6) physical\<rparr>)
                                     (file_table s6)\<rparr>;
                            s8 = add_to_cache norm_path content s7
                        in (True, save_metadata s8)))"

text \<open>\<^verbatim>\<open>write_file\<close>\<close>

definition write_file :: "string \<Rightarrow> string \<Rightarrow> fs_state \<Rightarrow> bool \<times> fs_state" where
  "write_file p content s =
     (let path = normalize p;
          s1 = invalidate_cache path s;
          parent_dir = dirname path;
          file_name = basename path;
          s2 = (if \<not> has_key (directory_structure s1) parent_dir
                then snd (create_directory parent_dir s1) else s1)
      in case map_of (directory_structure s2) parent_dir of
           None \<Rightarrow> (False, s2)
         | Some parent \<Rightarrow>
             (case map_of (contents parent) file_name of
                None \<Rightarrow> create_file path content s2
              | Some file_entry \<Rightarrow> write_existing path content file_entry s2))"

subsection \<open>Defragmentation\<close>




subsection \<open>Concrete runs\<close>

text \<open>A clock reading, and the file system a manager starts on an empty host.\<close>

definition t0 :: clock where
  "t0 = \<lparr>clock_time = 0, clock_stamp = ''20240101_000000''\<rparr>"

text \<open>A content of 4091905 bytes, which needs all the 1000 blocks of a new file system,
  and the state after \<^verbatim>\<open>create_file('/a', ...)\<close> with it.\<close>

definition full_file :: string where
  "full_file = replicate 4091905 (CHR ''x'')"

definition full_state :: fs_state where
  "full_state = snd (create_file ''/a'' full_file (fresh t0))"

text \<open>The state after \<^verbatim>\<open>create_file('/a.txt', 'hi')\<close> and \<^verbatim>\<open>read_file('/a.txt')\<close>, which
  leaves the content in the read cache.\<close>

definition cached_state :: fs_state where
  "cached_state = snd (read_file ''/a.txt'' (snd (create_file ''/a.txt'' ''hi'' (fresh t0))))"

text \<open>The states after \<^verbatim>\<open>create_directory('/docs')\<close> and after \<^verbatim>\<open>create_directory('/d')\<close>.\<close>

definition docs_state :: fs_state where
  "docs_state = snd (create_directory ''/docs'' (fresh t0))"

definition d_state :: fs_state where
  "d_state = snd (create_directory ''/d'' (fresh t0))"

subsection \<open>Notions the properties are stated with\<close>

text \<open>A path resolves to a file: its parent directory is in the directory structure and
  lists the name as a file.\<close>

definition resolves_to_file :: "string \<Rightarrow> fs_state \<Rightarrow> bool" where
  "resolves_to_file p s =
     (case map_of (directory_structure s) (dirname (normalize p)) of
        None \<Rightarrow> False
      | Some parent \<Rightarrow>
          (case map_of (contents parent) (basename (normalize p)) of
             Some (FileRef file_id) \<Rightarrow> True
           | _ \<Rightarrow> False))"

text \<open>What \<^verbatim>\<open>write_file\<close> does before it looks the name up: the cache entry of the path
  is dropped, and a parent directory missing from the directory structure is created
  through \<^verbatim>\<open>create_directory\<close>, whose result is ignored.\<close>

definition write_prelude :: "string \<Rightarrow> fs_state \<Rightarrow> fs_state" where
  "write_prelude p s =
     (let s1 = invalidate_cache (normalize p) s; parent_dir = dirname (normalize p) in
      if \<not> has_key (directory_structure s1) parent_dir
      then snd (create_directory parent_dir s1) else s1)"

text \<open>The directory \<open>q\<close>, when present, lists no file.\<close>

definition no_file_at :: "string \<Rightarrow> fs_state \<Rightarrow> bool" where
  "no_file_at q s =
     (case map_of (directory_structure s) q of
        None \<Rightarrow> True
      | Some e \<Rightarrow>
          list_all (\<lambda>(name, c). case c of FileRef i \<Rightarrow> False | DirRef d \<Rightarrow> True) (contents e))"

text \<open>The names \<^verbatim>\<open>_recover_metadata\<close> selects from the backup directory.\<close>

definition metadata_backups :: "fs_state \<Rightarrow> string list" where
  "metadata_backups s = filter (\<lambda>f. startswith f ''metadata_backup_'') (map fst (backup_dir s))"

text \<open>
  A manager restarted on a host whose metadata file was cut short by a failed dump, with a
  directory \<^verbatim>\<open>docs\<close> under the root and a given backup directory. A snapshot taken when
  \<^verbatim>\<open>/docs\<close> had been created; the backup directory with that snapshot and, dated a day
  later, a copy of a metadata file cut short (what \<^verbatim>\<open>_save_metadata\<close> stores when it runs
  after a dump that failed); and the backup directory with the snapshot alone.
\<close>

definition docs_snapshot :: snapshot where
  "docs_snapshot =
     \<lparr>snap_block_size = Some 4096, snap_free_blocks = Some (py_range 1 1001),
      snap_file_table = Some [],
      snap_directory_structure =
        Some [(''/'', \<lparr>contents = [(''docs'', DirRef ''/docs'')]\<rparr>), (''/docs'', \<lparr>contents = []\<rparr>)]\<rparr>"

definition restart_host :: "(string \<times> dfile) list \<Rightarrow> fs_state" where
  "restart_host backups =
     (empty_host t0)\<lparr>block_size := 4096, cache_max_size := 100, cache_ttl := 300,
                     disk := [(''docs'', PDir)], backup_dir := backups,
                     metadata_file := Some Partial\<rparr>"

definition two_backups :: "(string \<times> dfile) list" where
  "two_backups =
     [(''metadata_backup_20240101_000000.json'', Json docs_snapshot),
      (''metadata_backup_20240102_000000.json'', Partial)]"

definition one_backup :: "(string \<times> dfile) list" where
  "one_backup = [(''metadata_backup_20240101_000000.json'', Json docs_snapshot)]"

subsection \<open>Notions for defragmentation\<close>








subsection \<open>Notions for a metadata save that fails\<close>

text \<open>Two states agree on everything but the metadata file, the backup directory and the
  fault of the host: on the manager's fields, the tree under \<^verbatim>\<open>root_dir\<close> and the clock.\<close>

definition same_memory :: "fs_state \<Rightarrow> fs_state \<Rightarrow> bool" where
  "same_memory a b =
     (block_size a = block_size b \<and> free_blocks a = free_blocks b
      \<and> file_table a = file_table b \<and> directory_structure a = directory_structure b
      \<and> read_cache a = read_cache b \<and> cache_max_size a = cache_max_size b
      \<and> cache_ttl a = cache_ttl b \<and> cache_timestamps a = cache_timestamps b
      \<and> disk a = disk b \<and> now a = now b)"

text \<open>The body of \<^verbatim>\<open>_save_metadata\<close> raises: opening or dumping fails, or the copy of an
  existing metadata file does.\<close>

definition save_raises :: "fs_state \<Rightarrow> bool" where
  "save_raises s =
     (save_fault s = OpenFails \<or> save_fault s = DumpFails
      \<or> (save_fault s = CopyFails \<and> metadata_file s \<noteq> None))"

text \<open>The metadata file is the one from before, or a text cut short: it never became the
  dump of a state.\<close>

definition not_persisted :: "dfile option \<Rightarrow> fs_state \<Rightarrow> bool" where
  "not_persisted before s = (metadata_file s = before \<or> metadata_file s = Some Partial)"

text \<open>An operation swallows the failing saves: it returns what it returns on the host
  without the fault, it leaves the manager's fields and the tree as it leaves them there,
  and the metadata file is not persisted.\<close>

definition swallowed :: "(fs_state \<Rightarrow> bool \<times> fs_state) \<Rightarrow> fs_state \<Rightarrow> bool" where
  "swallowed operation s =
     (fst (operation s) = fst (operation (s\<lparr>save_fault := NoFault\<rparr>))
      \<and> same_memory (snd (operation s)) (snd (operation (s\<lparr>save_fault := NoFault\<rparr>)))
      \<and> not_persisted (metadata_file s) (snd (operation s)))"

text \<open>A run whose saves all raise, beside a run on any host with the same memory.\<close>

definition shadowed :: "dfile option \<Rightarrow> fs_state \<Rightarrow> fs_state \<Rightarrow> bool" where
  "shadowed before a b = (same_memory a b \<and> save_raises a \<and> not_persisted before a)"

text \<open>A new file system on a host where every dump of the metadata fails.\<close>

definition dump_fails_state :: fs_state where
  "dump_fails_state = (fresh t0)\<lparr>save_fault := DumpFails\<rparr>"

subsection \<open>Notions for the recovery of a file\<close>






section \<open>Properties\<close>

subsection \<open>Evaluation\<close>

lemmas path_defs = normalize_def dirname_def basename_def replace_char_def startswith_def
  split_head_def not_slash_def is_slash_def rstrip_slash_def physical_path_def
  physical_dirname_def lstrip_slash_def endswith_slash_def path_join_def normalize_dir_def

lemmas disk_defs = exists_path_def is_dir_def has_key_def makedirs_def ancestors_def
  write_text_def read_bytes_def read_text_def calculate_checksum_def os_remove_def

lemma length_py_range: "length (py_range a b) = nat (b - a)"
  by (simp add: py_range_def)

lemma py_take_all: "int (length xs) \<le> n \<Longrightarrow> py_take n xs = xs"
  by (simp add: py_take_def)

lemma py_drop_all: "int (length xs) \<le> n \<Longrightarrow> py_drop n xs = []"
  by (simp add: py_drop_def)

lemma py_range_one: "py_range 1 2 = [1]"
  by (simp add: py_range_def)

text \<open>Saving touches the backup directory and the metadata file only.\<close>

lemma save_metadata_memory [simp]:
  "block_size (save_metadata s) = block_size s"
  "free_blocks (save_metadata s) = free_blocks s"
  "file_table (save_metadata s) = file_table s"
  "directory_structure (save_metadata s) = directory_structure s"
  "read_cache (save_metadata s) = read_cache s"
  "cache_max_size (save_metadata s) = cache_max_size s"
  "cache_ttl (save_metadata s) = cache_ttl s"
  "cache_timestamps (save_metadata s) = cache_timestamps s"
  "disk (save_metadata s) = disk s"
  "now (save_metadata s) = now s"
  "save_fault (save_metadata s) = save_fault s"
  by (auto simp: save_metadata_def split: option.splits)

lemma fresh_eq:
  "fresh t0 =
     \<lparr>block_size = 4096, free_blocks = py_range 1 1001, file_table = [],
      directory_structure = [(''/'', \<lparr>contents = []\<rparr>)],
      read_cache = [], cache_max_size = 100, cache_ttl = 300, cache_timestamps = [],
      disk = [], backup_dir = [],
      metadata_file = Some (Json \<lparr>snap_block_size = Some 4096,
         snap_free_blocks = Some (py_range 1 1001), snap_file_table = Some [],
         snap_directory_structure = Some [(''/'', \<lparr>contents = []\<rparr>)]\<rparr>),
      now = t0, save_fault = NoFault\<rparr>"
  by (simp add: fresh_def fs_init_def empty_host_def load_metadata_def
      initialize_file_system_def save_metadata_def snapshot_of_def)

lemma full_state_eq:
  "free_blocks full_state = []"
  "file_table full_state =
     [(md5 ''/a'', \<lparr>path = ''/a'', fsize = 4091905, blocks = py_range 1 1001,
                    checksum = md5 full_file\<rparr>)]"
  "directory_structure full_state = [(''/'', \<lparr>contents = [(''a'', FileRef (md5 ''/a''))]\<rparr>)]"
  "disk full_state = [(''a'', PFile full_file)]"
  "block_size full_state = 4096"
  by (simp_all add: full_state_def fresh_eq create_file_def path_defs disk_defs
      allocate_blocks_def blocks_needed_def length_py_range py_take_all py_drop_all
      full_file_def Let_def)

lemma md5_a_b: "md5 ''/a'' \<noteq> md5 ''/b''"
  by code_simp

subsection \<open>The block allocator\<close>

text \<open>
  Claim C4. \<^verbatim>\<open>allocate(n)\<close> is to mint, when the pool is short, identifiers strictly above
  every identifier issued so far, those held by files included. The code takes the
  maximum of the free pool alone. After \<^verbatim>\<open>create_file('/a', ...)\<close> with 4091905 bytes on a
  new file system the pool is empty and the file holds the blocks 1 to 1000; allocating
  one block then returns block 1 again.
\<close>

theorem allocate_blocks_reissues_block:
  "free_blocks full_state = []
   \<and> map (\<lambda>(file_id, r). blocks r) (file_table full_state) = [[1..1000]]
   \<and> fst (allocate_blocks 1 full_state) = [1]"
  by (simp add: full_state_eq allocate_blocks_def current_max_def py_range_one py_take_def Let_def)
     (simp add: py_range_def)

text \<open>
  Claim C3. After any sequence of creations, writes and deletions no block is to belong
  to two files. The run \<^verbatim>\<open>create_file('/a', ...)\<close> with 4091905 bytes, then
  \<^verbatim>\<open>create_file('/b', 'x')\<close>, on a new file system ends with block 1 in both files.
\<close>

theorem create_file_shares_block:
  "map (\<lambda>(file_id, r). (path r, blocks r))
       (file_table (snd (create_file ''/b'' ''x'' full_state)))
     = [(''/a'', [1..1000]), (''/b'', [1])]"
  by (simp add: full_state_eq create_file_def path_defs disk_defs allocate_blocks_def
      blocks_needed_def current_max_def py_range_one py_take_def py_drop_def Let_def md5_a_b)
     (simp add: py_range_def)

subsection \<open>The read cache and deletion\<close>

lemma t0_simps: "clock_time t0 = 0" "clock_stamp t0 = ''20240101_000000''"
  by (simp_all add: t0_def)

lemma recursion_limit_Suc: "recursion_limit = Suc 999"
  by (simp add: recursion_limit_def)

lemmas create_directory_unfold =
  create_directory_def[unfolded recursion_limit_Suc create_directory_depth.simps]

lemma fresh_fields:
  "block_size (fresh t0) = 4096" "free_blocks (fresh t0) = py_range 1 1001"
  "file_table (fresh t0) = []" "directory_structure (fresh t0) = [(''/'', \<lparr>contents = []\<rparr>)]"
  "read_cache (fresh t0) = []" "cache_max_size (fresh t0) = 100" "cache_ttl (fresh t0) = 300"
  "cache_timestamps (fresh t0) = []" "disk (fresh t0) = []" "backup_dir (fresh t0) = []"
  "now (fresh t0) = t0" "save_fault (fresh t0) = NoFault"
  by (simp_all add: fresh_eq)

text \<open>
  Claim C2. A successful \<^verbatim>\<open>delete_file\<close> is to evict the path's cache entry, so that a
  following \<^verbatim>\<open>read_file\<close> finds nothing. \<^verbatim>\<open>delete_file\<close> never touches the cache
  (\<^verbatim>\<open>write_file\<close> does, through \<^verbatim>\<open>_invalidate_cache\<close>): after \<^verbatim>\<open>create_file('/a.txt', 'hi')\<close>
  and \<^verbatim>\<open>read_file('/a.txt')\<close>, the deletion succeeds, the root directory lists nothing,
  the file table is empty, and \<^verbatim>\<open>read_file('/a.txt')\<close> still returns \<^verbatim>\<open>'hi'\<close>.
\<close>

theorem read_file_after_delete_file:
  "(let (deleted, s) = delete_file ''/a.txt'' cached_state
    in deleted \<and> list_directory ''/'' s = Some (''/'', ''/'', []) \<and> file_table s = []
       \<and> fst (read_file ''/a.txt'' s) = Some ''hi'')"
  by (simp add: cached_state_def fresh_eq create_file_def read_file_def delete_file_def
      list_directory_def check_cache_expiration_def add_to_cache_def backup_file_def
      free_blocks_of_def t0_simps path_defs disk_defs allocate_blocks_def blocks_needed_def
      length_py_range py_take_def py_drop_def Let_def)

subsection \<open>Path normalisation\<close>

text \<open>
  Claim C8. Every public operation is to strip one trailing slash, so that a path with
  it behaves as the path without. Only \<^verbatim>\<open>list_directory\<close> strips it: after
  \<^verbatim>\<open>create_directory('/docs')\<close> both \<^verbatim>\<open>list_directory('/docs/')\<close> and
  \<^verbatim>\<open>list_directory('/docs')\<close> list the directory, \<^verbatim>\<open>delete_directory('/docs')\<close> succeeds,
  and \<^verbatim>\<open>delete_directory('/docs/')\<close> fails.
\<close>

theorem delete_directory_trailing_slash:
  "list_directory ''/docs/'' docs_state = Some (''docs'', ''/docs'', [])
   \<and> list_directory ''/docs'' docs_state = Some (''docs'', ''/docs'', [])
   \<and> fst (delete_directory ''/docs'' False docs_state)
   \<and> \<not> fst (delete_directory ''/docs/'' False docs_state)"
  unfolding docs_state_def create_directory_def delete_directory_def recursion_limit_Suc
      create_directory_depth.simps delete_directory_depth.simps
  by (simp add: fresh_eq list_directory_def os_rmdir_def is_under_def path_defs disk_defs Let_def)

subsection \<open>Writing to a path that is not a file\<close>

lemma invalidate_fresh: "invalidate_cache p (fresh t0) = fresh t0"
  by (simp add: invalidate_cache_def fresh_eq)

lemma d_state_fields:
  "block_size d_state = 4096" "free_blocks d_state = py_range 1 1001"
  "file_table d_state = []"
  "directory_structure d_state =
     [(''/'', \<lparr>contents = [(''d'', DirRef ''/d'')]\<rparr>), (''/d'', \<lparr>contents = []\<rparr>)]"
  "disk d_state = [(''d'', PDir)]"
  by (simp_all add: d_state_def fresh_fields create_directory_unfold path_defs disk_defs Let_def)

text \<open>
  Claim C9, as stated, fails: with the parent directory \<^verbatim>\<open>/d\<close> absent,
  \<^verbatim>\<open>write_file('/d/f.txt', 'x')\<close> succeeds and the directory structure gains \<^verbatim>\<open>/d\<close>, where
  \<^verbatim>\<open>create_file('/d/f.txt', 'x')\<close> fails.
\<close>

theorem write_file_creates_parent:
  "fst (write_file ''/d/f.txt'' ''x'' (fresh t0))
   \<and> \<not> fst (create_file ''/d/f.txt'' ''x'' (fresh t0))
   \<and> map fst (directory_structure (fresh t0)) = [''/'']
   \<and> map fst (directory_structure (snd (write_file ''/d/f.txt'' ''x'' (fresh t0)))) = [''/'', ''/d'']"
proof -
  have w: "write_file ''/d/f.txt'' ''x'' (fresh t0) = create_file ''/d/f.txt'' ''x'' d_state"
    by (simp add: write_file_def invalidate_fresh fresh_fields d_state_def[symmetric]
        d_state_fields path_defs has_key_def Let_def)
  show ?thesis
    unfolding w
    by (simp add: fresh_fields d_state_fields create_file_def path_defs disk_defs
        allocate_blocks_def blocks_needed_def length_py_range py_take_def py_drop_def Let_def)
qed

lemma replace_char_idem: "a \<noteq> b \<Longrightarrow> replace_char a b (replace_char a b s) = replace_char a b s"
  by (induction s) (auto simp: replace_char_def)

lemma normalize_startswith: "startswith (normalize p) ''/''"
  by (simp add: normalize_def Let_def startswith_def)

lemma normalize_replaced:
  "replace_char (CHR 0x5C) (CHR ''/'') (normalize p) = normalize p"
proof -
  have neq: "CHR 0x5C \<noteq> CHR ''/''" by simp
  have app: "replace_char (CHR 0x5C) (CHR ''/'') (CHR ''/'' # q)
      = CHR ''/'' # replace_char (CHR 0x5C) (CHR ''/'') q" for q
    by (simp add: replace_char_def)
  show ?thesis
    by (simp add: normalize_def Let_def app replace_char_idem[OF neq])
qed

lemma normalize_idem: "normalize (normalize p) = normalize p"
  by (subst normalize_def) (simp add: normalize_replaced normalize_startswith Let_def)


lemma no_file_at_absent: "map_of (directory_structure s) q = None \<Longrightarrow> no_file_at q s"
  by (simp add: no_file_at_def)

lemma no_file_at_cong:
  "directory_structure s' = directory_structure s \<Longrightarrow> no_file_at q s' = no_file_at q s"
  by (simp add: no_file_at_def)

lemma no_file_at_save: "no_file_at q (save_metadata s) = no_file_at q s"
  by (simp add: no_file_at_def)

lemma list_all_update:
  "list_all P al \<Longrightarrow> P (k, v) \<Longrightarrow> list_all P (AList.update k v al)"
  by (induction al) auto

lemma no_file_at_new_dir:
  "no_file_at q s \<Longrightarrow>
   directory_structure s' = AList.update pth \<lparr>contents = []\<rparr> (directory_structure s) \<Longrightarrow>
   no_file_at q s'"
  by (simp add: no_file_at_def update_conv')

lemma no_file_at_link:
  assumes "no_file_at q s" and "map_of (directory_structure s) pd = Some parent"
    and "directory_structure s' = AList.update pd
           (parent\<lparr>contents := AList.update b (DirRef x) (contents parent)\<rparr>) (directory_structure s)"
  shows "no_file_at q s'"
proof (cases "q = pd")
  case True
  with assms(1,2) have "list_all (\<lambda>(name, c). case c of FileRef i \<Rightarrow> False | DirRef d \<Rightarrow> True)
      (contents parent)"
    by (simp add: no_file_at_def)
  then have "list_all (\<lambda>(name, c). case c of FileRef i \<Rightarrow> False | DirRef d \<Rightarrow> True)
      (AList.update b (DirRef x) (contents parent))"
    by (rule list_all_update) simp
  with True assms(3) show ?thesis
    by (simp add: no_file_at_def update_conv')
next
  case False
  with assms(1,3) show ?thesis
    by (simp add: no_file_at_def update_conv')
qed

text \<open>\<^verbatim>\<open>create_directory\<close> links directories only: a directory that listed no file lists
  none afterwards.\<close>

lemma create_directory_depth_no_file:
  "no_file_at q s \<Longrightarrow> no_file_at q (snd (create_directory_depth n p s))"
proof (induction n arbitrary: p s)
  case 0
  then show ?case by simp
next
  case (Suc n)
  let ?pth = "normalize p"
  let ?parent_dir = "dirname ?pth"
  let ?r = "(if ?parent_dir \<noteq> [] \<and> \<not> has_key (directory_structure s) ?parent_dir
             then create_directory_depth n ?parent_dir s else (True, s))"
  have r_ok: "no_file_at q (snd ?r)"
    using Suc.IH[OF Suc.prems, of ?parent_dir] Suc.prems by simp
  obtain ok s1 where r_eq: "?r = (ok, s1)" by (cases ?r)
  with r_ok have s1_ok: "no_file_at q s1" by simp
  let ?s2 = "\<lambda>d. s1\<lparr>disk := d, directory_structure :=
                              AList.update ?pth \<lparr>contents = []\<rparr> (directory_structure s1)\<rparr>"
  let ?s3 = "\<lambda>d parent. (?s2 d)\<lparr>directory_structure :=
                                AList.update ?parent_dir
                                  (parent\<lparr>contents :=
                                     AList.update (basename ?pth) (DirRef ?pth) (contents parent)\<rparr>)
                                  (directory_structure (?s2 d))\<rparr>"
  have unfold: "create_directory_depth (Suc n) p s =
     (if has_key (directory_structure s) ?pth then (False, s)
      else if \<not> ok then (False, s1)
      else (case makedirs (disk s1) (physical_path ?pth) of
              None \<Rightarrow> (False, s1)
            | Some d \<Rightarrow>
                if ?pth \<noteq> ''/''
                then (case map_of (directory_structure (?s2 d)) ?parent_dir of
                        None \<Rightarrow> (False, ?s2 d)
                      | Some parent \<Rightarrow> (True, save_metadata (?s3 d parent)))
                else (True, save_metadata (?s2 d))))"
    by (simp only: create_directory_depth.simps Let_def r_eq prod.case)
  show ?case
  proof (cases "has_key (directory_structure s) ?pth \<or> \<not> ok \<or> makedirs (disk s1) (physical_path ?pth) = None")
    case True
    then show ?thesis using Suc.prems s1_ok by (auto simp only: unfold snd_conv option.case if_True if_False split: if_splits)
  next
    case False
    then obtain d where d: "makedirs (disk s1) (physical_path ?pth) = Some d" by auto
    have s2_ok: "no_file_at q (?s2 d)"
      by (rule no_file_at_new_dir[OF s1_ok]) simp
    show ?thesis
    proof (cases "?pth \<noteq> ''/''")
      case root: False
      have eq: "create_directory_depth (Suc n) p s = (True, save_metadata (?s2 d))"
        using False d root by (simp only: unfold) simp
      show ?thesis
        unfolding eq snd_conv no_file_at_save by (rule s2_ok)
    next
      case nonroot: True
      show ?thesis
      proof (cases "map_of (directory_structure (?s2 d)) ?parent_dir")
        case None
        have eq: "create_directory_depth (Suc n) p s = (False, ?s2 d)"
          using False d nonroot None by (simp only: unfold) simp
        show ?thesis
          unfolding eq snd_conv by (rule s2_ok)
      next
        case (Some parent)
        have s3_ok: "no_file_at q (?s3 d parent)"
          by (rule no_file_at_link[OF s2_ok Some]) simp
        have eq: "create_directory_depth (Suc n) p s = (True, save_metadata (?s3 d parent))"
          using False d nonroot Some by (simp only: unfold) simp
        show ?thesis
          unfolding eq snd_conv no_file_at_save by (rule s3_ok)
      qed
    qed
  qed
qed

lemma create_file_no_parent:
  "map_of (directory_structure s) (dirname (normalize p)) = None \<Longrightarrow>
   create_file p c s = (False, s)"
  by (simp add: create_file_def Let_def)

lemma create_file_exists:
  "map_of (directory_structure s) (dirname (normalize p)) = Some parent \<Longrightarrow>
   map_of (contents parent) (basename (normalize p)) = Some e \<Longrightarrow>
   create_file p c s = (False, s)"
  by (simp add: create_file_def Let_def has_key_def)

lemma create_file_normalize: "create_file (normalize p) c s = create_file p c s"
  by (simp add: create_file_def normalize_idem)

text \<open>For a path that does not resolve to a file, \<^verbatim>\<open>write_file\<close> is \<^verbatim>\<open>create_file\<close> run
  after its own first steps.\<close>

lemma write_file_delegates:
  assumes "\<not> resolves_to_file p s"
  shows "write_file p c s = create_file p c (write_prelude p s)"
proof -
  define s2 where "s2 = write_prelude p s"
  define parent_dir where "parent_dir = dirname (normalize p)"
  have wf: "write_file p c s =
     (case map_of (directory_structure s2) parent_dir of
        None \<Rightarrow> (False, s2)
      | Some parent \<Rightarrow>
          (case map_of (contents parent) (basename (normalize p)) of
             None \<Rightarrow> create_file (normalize p) c s2
           | Some file_entry \<Rightarrow> write_existing (normalize p) c file_entry s2))"
    unfolding write_file_def write_prelude_def s2_def parent_dir_def Let_def
    by (rule refl)
  have nf: "\<not> resolves_to_file p s2"
  proof (cases "has_key (directory_structure s) parent_dir")
    case True
    then have "directory_structure s2 = directory_structure s"
      by (simp add: s2_def write_prelude_def parent_dir_def invalidate_cache_def Let_def)
    with assms show ?thesis
      by (simp add: resolves_to_file_def)
  next
    case False
    then have abs: "map_of (directory_structure (invalidate_cache (normalize p) s)) parent_dir = None"
      by (simp add: has_key_def invalidate_cache_def)
    from False have "s2 = snd (create_directory_depth recursion_limit parent_dir
                                 (invalidate_cache (normalize p) s))"
      by (simp add: s2_def write_prelude_def parent_dir_def invalidate_cache_def Let_def
          create_directory_def)
    then have "no_file_at parent_dir s2"
      using create_directory_depth_no_file[OF no_file_at_absent[OF abs]] by simp
    then show ?thesis
      by (auto simp: no_file_at_def resolves_to_file_def parent_dir_def list_all_iff
          split: option.splits child_ref.splits dest!: map_of_SomeD)
  qed
  show ?thesis
  proof (cases "map_of (directory_structure s2) parent_dir")
    case None
    then show ?thesis
      by (simp add: wf s2_def[symmetric] create_file_no_parent parent_dir_def)
  next
    case (Some parent)
    show ?thesis
    proof (cases "map_of (contents parent) (basename (normalize p))")
      case None
      with Some show ?thesis
        by (simp add: wf s2_def[symmetric] create_file_normalize)
    next
      case e: (Some file_entry)
      from nf Some e have "\<exists>d. file_entry = DirRef d"
        by (cases file_entry) (simp_all add: resolves_to_file_def parent_dir_def)
      then obtain d where "file_entry = DirRef d" ..
      with Some e show ?thesis
        using create_file_exists[of s2 p parent file_entry c]
        by (simp add: wf s2_def[symmetric] write_existing_def parent_dir_def)
    qed
  qed
qed


subsection \<open>Recovery of the metadata\<close>

lemma scan_directory_numeral:
  "scan_directory (numeral k) physical virtual s =
     (case listdir (disk s) physical of
        None \<Rightarrow> s
      | Some items \<Rightarrow> scan_items (pred_numeral k) physical virtual items s)"
  by (simp add: numeral_eq_Suc)

lemma sorted_le_last:
  fixes x :: "'a::linorder"
  shows "sorted ys \<Longrightarrow> x \<in> set ys \<Longrightarrow> x \<le> last ys"
  by (induction ys) (auto simp: last_in_set)

lemma last_sorted_greatest:
  fixes x :: "'a::linorder"
  assumes "x \<in> set xs" and "list_all (\<lambda>y. y \<le> x) xs"
  shows "last (sort xs) = x"
proof -
  have "set (sort xs) \<noteq> {}" using assms(1) by auto
  then have ne: "sort xs \<noteq> []" by (simp del: set_sort)
  have "last (sort xs) \<in> set (sort xs)" using ne by (rule last_in_set)
  then have le: "last (sort xs) \<le> x" using assms(2) by (simp add: list_all_iff)
  have "x \<in> set (sort xs)" using assms(1) by simp
  then have "x \<le> last (sort xs)" using sorted_sort[of xs] by (rule sorted_le_last[rotated])
  with le show ?thesis by simp
qed

text \<open>
  Claim C6, as amended. Recovery looks at one backup only, the one whose name is greatest
  among the files named \<^verbatim>\<open>metadata_backup_...\<close>: when \<^verbatim>\<open>json.load\<close> reads it, its state is
  adopted; when it does not, or there is no such file, the physical tree is rescanned.
  This holds whatever the JSON reader makes of bytes that were not dumped by the manager.
\<close>

theorem recover_metadata_latest:
  "(metadata_backups s = [] \<longrightarrow> recover_metadata parse s = rescan s)
   \<and> (latest \<in> set (metadata_backups s) \<and> list_all (\<lambda>f. f \<le> latest) (metadata_backups s) \<longrightarrow>
        recover_metadata parse s =
          (case map_of (backup_dir s) latest of
             None \<Rightarrow> rescan s
           | Some f \<Rightarrow>
               (case json_load parse f of
                  Some d \<Rightarrow> adopt d s
                | None \<Rightarrow> rescan s)))"
proof (intro conjI impI)
  assume "metadata_backups s = []"
  then show "recover_metadata parse s = rescan s"
    by (simp add: recover_metadata_def metadata_backups_def)
next
  assume a: "latest \<in> set (metadata_backups s) \<and> list_all (\<lambda>f. f \<le> latest) (metadata_backups s)"
  then have l: "last (sort (metadata_backups s)) = latest"
    by (simp add: last_sorted_greatest)
  from a have ne: "metadata_backups s \<noteq> []" by auto
  show "recover_metadata parse s =
          (case map_of (backup_dir s) latest of
             None \<Rightarrow> rescan s
           | Some f \<Rightarrow>
               (case json_load parse f of
                  Some d \<Rightarrow> adopt d s
                | None \<Rightarrow> rescan s))"
    using l ne
    by (simp add: recover_metadata_def metadata_backups_def[symmetric] Let_def
        split: option.splits)
qed

lemma restart_fields:
  "backup_dir (restart_host b) = b" "disk (restart_host b) = [(''docs'', PDir)]"
  "block_size (restart_host b) = 4096"
  "metadata_file (restart_host b) = Some Partial"
  by (simp_all add: restart_host_def empty_host_def)

lemma rescan_restart:
  "directory_structure (rescan (restart_host b)) = [(''/'', \<lparr>contents = []\<rparr>), (''/docs'', \<lparr>contents = []\<rparr>)]"
  by (simp add: rescan_def recursion_limit_def scan_directory_numeral initialize_file_system_def
      restart_fields listdir_def is_dir_def is_under_def path_defs not_slash_def)

text \<open>
  Claim C6, as stated, fails: with a loadable backup of 1 January and, of 2 January, the
  copy of a metadata file cut short, recovery rescans, whatever the JSON reader; the
  directory structure it ends with is not the one of the loadable backup.
\<close>

theorem recover_metadata_skips_older_backup:
  "\<forall>parse.
     json_load parse (Json docs_snapshot) = Some docs_snapshot
     \<and> map_of (backup_dir (restart_host two_backups)) ''metadata_backup_20240101_000000.json''
          = Some (Json docs_snapshot)
     \<and> recover_metadata parse (restart_host two_backups) = rescan (restart_host two_backups)
     \<and> directory_structure (recover_metadata parse (restart_host two_backups))
          = [(''/'', \<lparr>contents = []\<rparr>), (''/docs'', \<lparr>contents = []\<rparr>)]
     \<and> directory_structure (adopt docs_snapshot (restart_host two_backups))
          = [(''/'', \<lparr>contents = [(''docs'', DirRef ''/docs'')]\<rparr>), (''/docs'', \<lparr>contents = []\<rparr>)]"
proof
  fix parse
  have r: "recover_metadata parse (restart_host two_backups) = rescan (restart_host two_backups)"
    by (simp add: recover_metadata_def restart_fields two_backups_def startswith_def json_load_def)
  show "json_load parse (Json docs_snapshot) = Some docs_snapshot
     \<and> map_of (backup_dir (restart_host two_backups)) ''metadata_backup_20240101_000000.json''
          = Some (Json docs_snapshot)
     \<and> recover_metadata parse (restart_host two_backups) = rescan (restart_host two_backups)
     \<and> directory_structure (recover_metadata parse (restart_host two_backups))
          = [(''/'', \<lparr>contents = []\<rparr>), (''/docs'', \<lparr>contents = []\<rparr>)]
     \<and> directory_structure (adopt docs_snapshot (restart_host two_backups))
          = [(''/'', \<lparr>contents = [(''docs'', DirRef ''/docs'')]\<rparr>), (''/docs'', \<lparr>contents = []\<rparr>)]"
    unfolding r
    by (simp add: rescan_restart restart_fields two_backups_def json_load_def adopt_def docs_snapshot_def)
qed

theorem recover_metadata_latest_witness:
  "\<forall>parse.
     metadata_backups (restart_host []) = []
     \<and> recover_metadata parse (restart_host []) = rescan (restart_host [])
     \<and> ''metadata_backup_20240102_000000.json'' \<in> set (metadata_backups (restart_host two_backups))
     \<and> list_all (\<lambda>f. f \<le> ''metadata_backup_20240102_000000.json'') (metadata_backups (restart_host two_backups))
     \<and> recover_metadata parse (restart_host two_backups) = rescan (restart_host two_backups)
     \<and> ''metadata_backup_20240101_000000.json'' \<in> set (metadata_backups (restart_host one_backup))
     \<and> recover_metadata parse (restart_host one_backup) = adopt docs_snapshot (restart_host one_backup)"
proof
  fix parse
  have h0: "metadata_backups (restart_host []) = []"
    by (simp add: metadata_backups_def restart_fields)
  have h2: "''metadata_backup_20240102_000000.json'' \<in> set (metadata_backups (restart_host two_backups))
     \<and> list_all (\<lambda>f. f \<le> ''metadata_backup_20240102_000000.json'') (metadata_backups (restart_host two_backups))"
    by (simp add: metadata_backups_def restart_fields two_backups_def startswith_def)
  have h1: "''metadata_backup_20240101_000000.json'' \<in> set (metadata_backups (restart_host one_backup))
     \<and> list_all (\<lambda>f. f \<le> ''metadata_backup_20240101_000000.json'') (metadata_backups (restart_host one_backup))"
    by (simp add: metadata_backups_def restart_fields one_backup_def startswith_def)
  have c0: "recover_metadata parse (restart_host []) = rescan (restart_host [])"
    using recover_metadata_latest[of "restart_host []" parse] h0 by simp
  have c2: "recover_metadata parse (restart_host two_backups) = rescan (restart_host two_backups)"
    using recover_metadata_latest[of "restart_host two_backups" parse "''metadata_backup_20240102_000000.json''"] h2
    by (simp add: restart_fields two_backups_def json_load_def)
  have c1: "recover_metadata parse (restart_host one_backup) = adopt docs_snapshot (restart_host one_backup)"
    using recover_metadata_latest[of "restart_host one_backup" parse "''metadata_backup_20240101_000000.json''"] h1
    by (simp add: restart_fields one_backup_def json_load_def)
  show "metadata_backups (restart_host []) = []
     \<and> recover_metadata parse (restart_host []) = rescan (restart_host [])
     \<and> ''metadata_backup_20240102_000000.json'' \<in> set (metadata_backups (restart_host two_backups))
     \<and> list_all (\<lambda>f. f \<le> ''metadata_backup_20240102_000000.json'') (metadata_backups (restart_host two_backups))
     \<and> recover_metadata parse (restart_host two_backups) = rescan (restart_host two_backups)
     \<and> ''metadata_backup_20240101_000000.json'' \<in> set (metadata_backups (restart_host one_backup))
     \<and> recover_metadata parse (restart_host one_backup) = adopt docs_snapshot (restart_host one_backup)"
    using h0 h1 h2 c0 c1 c2 by simp
qed

subsection \<open>Writing with an absent parent directory\<close>

lemma rev_dropWhile_snoc:
  "rev (dropWhile P (ys @ [x]))
     = (if list_all P ys \<and> P x then [] else x # rev (dropWhile P ys))"
  by (auto simp: dropWhile_append list_all_iff)

lemma dirname_startswith: "startswith q ''/'' \<Longrightarrow> startswith (dirname q) ''/''"
proof -
  assume "startswith q ''/''"
  then obtain r where q: "q = CHR ''/'' # r"
    by (cases q) (auto simp: startswith_def)
  show ?thesis
    unfolding q dirname_def split_head_def rstrip_slash_def Let_def
    by (simp add: rev_dropWhile_snoc not_slash_def is_slash_def startswith_def)
qed

lemma dirname_chars: "set (dirname q) \<subseteq> set q"
  by (auto simp: dirname_def split_head_def rstrip_slash_def Let_def dest!: set_dropWhileD)

lemma normalize_no_backslash: "CHR 0x5C \<notin> set (normalize p)"
  by (auto simp: normalize_def replace_char_def Let_def)

lemma replace_char_absent: "a \<notin> set q \<Longrightarrow> replace_char a b q = q"
  unfolding replace_char_def by (rule map_idI) auto

lemma normalize_dirname: "normalize (dirname (normalize p)) = dirname (normalize p)"
proof -
  have "CHR 0x5C \<notin> set (dirname (normalize p))"
    using dirname_chars[of "normalize p"] normalize_no_backslash[of p] by blast
  then have r: "replace_char (CHR 0x5C) (CHR ''/'') (dirname (normalize p)) = dirname (normalize p)"
    by (rule replace_char_absent)
  show ?thesis
    by (subst normalize_def) (simp add: r dirname_startswith[OF normalize_startswith] Let_def)
qed

lemma dirname_root: "dirname ''/'' = ''/''"
  by (simp add: path_defs)

text \<open>\<^verbatim>\<open>create_directory\<close> of a directory whose parent is registered.\<close>

lemma create_directory_one_level:
  assumes "\<not> has_key (directory_structure s) q" and "normalize q = q"
    and "map_of (directory_structure s) (dirname q) = Some g"
    and "makedirs (disk s) (physical_path q) = Some d"
  shows "create_directory q s =
     (True, save_metadata (s\<lparr>disk := d,
        directory_structure :=
          AList.update (dirname q)
            (g\<lparr>contents := AList.update (basename q) (DirRef q) (contents g)\<rparr>)
            (AList.update q \<lparr>contents = []\<rparr> (directory_structure s))\<rparr>))"
proof -
  have ne: "dirname q \<noteq> q" using assms(1,3) by (auto simp: has_key_def)
  then have nr: "q \<noteq> ''/''" using dirname_root by auto
  show ?thesis
    using assms ne nr
    by (simp add: create_directory_unfold Let_def has_key_def update_conv')
qed

lemma allocate_blocks_dirs:
  "directory_structure (snd (allocate_blocks n s)) = directory_structure s"
  by (simp add: allocate_blocks_def Let_def)

lemma create_file_keeps_dirs:
  "has_key (directory_structure s) k \<Longrightarrow>
   has_key (directory_structure (snd (create_file p c s))) k"
  by (simp add: create_file_def Let_def has_key_def update_conv' split_beta
      allocate_blocks_dirs split: option.splits)

lemma create_file_fst:
  assumes "map_of (directory_structure s) (dirname (normalize p)) = Some e"
    and "\<not> has_key (contents e) (basename (normalize p))"
  shows "fst (create_file p c s) \<longleftrightarrow>
     block_size s \<noteq> 0
     \<and> (\<exists>d1 d2. makedirs (disk s) (physical_dirname (physical_path (normalize p))) = Some d1
               \<and> write_text d1 (physical_path (normalize p)) c = Some d2)"
  using assms
  by (simp add: create_file_def Let_def split_beta split: option.splits)

text \<open>
  Claim C9, as amended. For a path that does not resolve to a file, \<^verbatim>\<open>write_file\<close> drops
  the path's cache entry, creates the parent directory through \<^verbatim>\<open>create_directory\<close> when
  the directory structure lacks it, and then behaves exactly as \<^verbatim>\<open>create_file\<close> on the
  state so reached. When the parent is absent, its own parent is registered (with entry
  \<open>g\<close>) and the host makes the physical directory (giving the disk \<open>d\<close>), this step
  registers the parent as an empty directory and links it under its own parent: the
  directory structure changes, \<^verbatim>\<open>write_file\<close> returns \<open>True\<close> exactly when the block size
  is not zero and the physical file can be written, and \<^verbatim>\<open>create_file\<close> alone returns
  \<open>False\<close> and changes nothing.
\<close>

theorem write_file_new:
  "(\<not> resolves_to_file p s \<longrightarrow> write_file p c s = create_file p c (write_prelude p s))
   \<and> (\<not> has_key (directory_structure s) (dirname (normalize p))
      \<and> map_of (directory_structure s) (dirname (dirname (normalize p))) = Some g
      \<and> makedirs (disk s) (physical_path (dirname (normalize p))) = Some d \<longrightarrow>
        create_file p c s = (False, s)
        \<and> directory_structure (write_prelude p s) =
            AList.update (dirname (dirname (normalize p)))
              (g\<lparr>contents := AList.update (basename (dirname (normalize p)))
                               (DirRef (dirname (normalize p))) (contents g)\<rparr>)
              (AList.update (dirname (normalize p)) \<lparr>contents = []\<rparr> (directory_structure s))
        \<and> disk (write_prelude p s) = d
        \<and> has_key (directory_structure (snd (write_file p c s))) (dirname (normalize p))
        \<and> (fst (write_file p c s) \<longleftrightarrow>
             block_size s \<noteq> 0
             \<and> (\<exists>d1 d2. makedirs d (physical_dirname (physical_path (normalize p))) = Some d1
                       \<and> write_text d1 (physical_path (normalize p)) c = Some d2)))"
proof (intro conjI impI)
  assume "\<not> resolves_to_file p s"
  then show "write_file p c s = create_file p c (write_prelude p s)"
    by (rule write_file_delegates)
next
  let ?parent = "dirname (normalize p)"
  let ?s1 = "invalidate_cache (normalize p) s"
  let ?dirs = "AList.update (dirname ?parent)
              (g\<lparr>contents := AList.update (basename ?parent) (DirRef ?parent) (contents g)\<rparr>)
              (AList.update ?parent \<lparr>contents = []\<rparr> (directory_structure s))"
  let ?s2 = "save_metadata (?s1\<lparr>disk := d, directory_structure := ?dirs\<rparr>)"
  assume a: "\<not> has_key (directory_structure s) ?parent
      \<and> map_of (directory_structure s) (dirname ?parent) = Some g
      \<and> makedirs (disk s) (physical_path ?parent) = Some d"
  have s1: "directory_structure ?s1 = directory_structure s" "disk ?s1 = disk s"
    "block_size ?s1 = block_size s"
    by (simp_all add: invalidate_cache_def)
  have made: "create_directory ?parent ?s1 = (True, ?s2)"
    using a create_directory_one_level[of ?s1 ?parent g d]
    by (simp add: s1 normalize_dirname)
  have prelude: "write_prelude p s = ?s2"
    using a by (simp add: write_prelude_def Let_def s1 made)
  have absent: "map_of (directory_structure s) ?parent = None"
    using a by (simp add: has_key_def)
  have unresolved: "\<not> resolves_to_file p s"
    by (simp add: resolves_to_file_def absent)
  have w: "write_file p c s = create_file p c ?s2"
    using write_file_delegates[OF unresolved, of c] by (simp only: prelude)
  have ne: "dirname ?parent \<noteq> ?parent"
    using a absent by auto
  have entry: "map_of (directory_structure ?s2) ?parent = Some \<lparr>contents = []\<rparr>"
    using ne by (simp add: update_conv')
  show "create_file p c s = (False, s)"
    by (rule create_file_no_parent[OF absent])
  show "directory_structure (write_prelude p s) = ?dirs"
    by (simp add: prelude)
  show "disk (write_prelude p s) = d"
    by (simp add: prelude)
  show "has_key (directory_structure (snd (write_file p c s))) ?parent"
    unfolding w using entry by (intro create_file_keeps_dirs) (simp add: has_key_def)
  show "fst (write_file p c s) \<longleftrightarrow>
             block_size s \<noteq> 0
             \<and> (\<exists>d1 d2. makedirs d (physical_dirname (physical_path (normalize p))) = Some d1
                       \<and> write_text d1 (physical_path (normalize p)) c = Some d2)"
    unfolding w using create_file_fst[OF entry, of c] by (simp add: has_key_def s1)
qed

theorem write_file_new_witness:
  "\<not> resolves_to_file ''/d/f.txt'' (fresh t0)
   \<and> write_file ''/d/f.txt'' ''x'' (fresh t0)
       = create_file ''/d/f.txt'' ''x'' (write_prelude ''/d/f.txt'' (fresh t0))
   \<and> \<not> has_key (directory_structure (fresh t0)) (dirname (normalize ''/d/f.txt''))
   \<and> map_of (directory_structure (fresh t0)) (dirname (dirname (normalize ''/d/f.txt'')))
        = Some \<lparr>contents = []\<rparr>
   \<and> makedirs (disk (fresh t0)) (physical_path (dirname (normalize ''/d/f.txt'')))
        = Some [(''d'', PDir)]
   \<and> create_file ''/d/f.txt'' ''x'' (fresh t0) = (False, fresh t0)
   \<and> directory_structure (write_prelude ''/d/f.txt'' (fresh t0))
        = [(''/'', \<lparr>contents = [(''d'', DirRef ''/d'')]\<rparr>), (''/d'', \<lparr>contents = []\<rparr>)]
   \<and> disk (write_prelude ''/d/f.txt'' (fresh t0)) = [(''d'', PDir)]
   \<and> has_key (directory_structure (snd (write_file ''/d/f.txt'' ''x'' (fresh t0)))) ''/d''
   \<and> fst (write_file ''/d/f.txt'' ''x'' (fresh t0))"
proof -
  have h1: "\<not> resolves_to_file ''/d/f.txt'' (fresh t0)"
    by (simp add: resolves_to_file_def fresh_fields path_defs)
  have h2: "\<not> has_key (directory_structure (fresh t0)) (dirname (normalize ''/d/f.txt''))
   \<and> map_of (directory_structure (fresh t0)) (dirname (dirname (normalize ''/d/f.txt'')))
        = Some \<lparr>contents = []\<rparr>
   \<and> makedirs (disk (fresh t0)) (physical_path (dirname (normalize ''/d/f.txt'')))
        = Some [(''d'', PDir)]"
    by (simp add: fresh_fields path_defs disk_defs)
  have p: "dirname (normalize ''/d/f.txt'') = ''/d''" "dirname ''/d'' = ''/''"
    "basename ''/d'' = ''d''" "physical_path (normalize ''/d/f.txt'') = ''d/f.txt''"
    "physical_dirname ''d/f.txt'' = ''d''"
    by (simp_all add: path_defs)
  have m: "makedirs [(''d'', PDir)] ''d'' = Some [(''d'', PDir)]"
    "write_text [(''d'', PDir)] ''d/f.txt'' ''x'' = Some [(''d'', PDir), (''d/f.txt'', PFile ''x'')]"
    by (simp_all add: disk_defs path_defs)
  note c1 = write_file_new[THEN conjunct1, THEN mp, OF h1, of "''x''"]
  note c2 = write_file_new[THEN conjunct2, THEN mp, OF h2, of "''x''"]
  show ?thesis
    using h1 h2 c1 c2 by (simp add: p m fresh_fields)
qed

subsection \<open>Defragmentation keeps the files and lays their blocks out\<close>





























subsection \<open>A failing metadata save is swallowed\<close>

lemma shadowed_fields:
  assumes "shadowed before a b"
  shows "block_size a = block_size b" "free_blocks a = free_blocks b"
    "file_table a = file_table b" "directory_structure a = directory_structure b"
    "read_cache a = read_cache b" "cache_max_size a = cache_max_size b"
    "cache_ttl a = cache_ttl b" "cache_timestamps a = cache_timestamps b"
    "disk a = disk b" "now a = now b"
  using assms by (simp_all add: shadowed_def same_memory_def)

lemma shadowed_save:
  "shadowed before a b \<Longrightarrow> shadowed before (save_metadata a) (save_metadata b)"
  unfolding shadowed_def
proof (intro conjI)
  assume h: "same_memory a b \<and> save_raises a \<and> not_persisted before a"
  then show "same_memory (save_metadata a) (save_metadata b)"
    by (simp add: same_memory_def)
  from h show "save_raises (save_metadata a)"
    by (auto simp: save_raises_def save_metadata_def split: option.splits)
  from h show "not_persisted before (save_metadata a)"
    by (auto simp: save_raises_def not_persisted_def save_metadata_def split: option.splits)
qed

lemma shadowed_update:
  assumes "shadowed before a b"
  shows "shadowed before (a\<lparr>disk := d\<rparr>) (b\<lparr>disk := d\<rparr>)"
    "shadowed before (a\<lparr>file_table := t\<rparr>) (b\<lparr>file_table := t\<rparr>)"
    "shadowed before (a\<lparr>directory_structure := ds\<rparr>) (b\<lparr>directory_structure := ds\<rparr>)"
    "shadowed before (a\<lparr>free_blocks := fb\<rparr>) (b\<lparr>free_blocks := fb\<rparr>)"
    "shadowed before (a\<lparr>read_cache := rc\<rparr>) (b\<lparr>read_cache := rc\<rparr>)"
    "shadowed before (a\<lparr>cache_timestamps := ct\<rparr>) (b\<lparr>cache_timestamps := ct\<rparr>)"
    "shadowed before (a\<lparr>backup_dir := x\<rparr>) (b\<lparr>backup_dir := y\<rparr>)"
  using assms
  by (simp_all add: shadowed_def same_memory_def save_raises_def not_persisted_def)

lemma create_file_shadowed:
  assumes "shadowed before a b"
  shows "fst (create_file p c a) = fst (create_file p c b)
     \<and> shadowed before (snd (create_file p c a)) (snd (create_file p c b))"
  using assms shadowed_fields[OF assms]
  by (simp add: create_file_def Let_def split_beta allocate_blocks_def
      shadowed_save shadowed_update split: option.splits)

lemma backup_file_fields:
  "block_size (snd (backup_file k s)) = block_size s"
  "free_blocks (snd (backup_file k s)) = free_blocks s"
  "file_table (snd (backup_file k s)) = file_table s"
  "directory_structure (snd (backup_file k s)) = directory_structure s"
  "read_cache (snd (backup_file k s)) = read_cache s"
  "cache_max_size (snd (backup_file k s)) = cache_max_size s"
  "cache_ttl (snd (backup_file k s)) = cache_ttl s"
  "cache_timestamps (snd (backup_file k s)) = cache_timestamps s"
  "disk (snd (backup_file k s)) = disk s"
  "now (snd (backup_file k s)) = now s"
  by (simp_all add: backup_file_def Let_def split: option.splits)

lemma backup_file_shadowed:
  assumes "shadowed before a b"
  shows "shadowed before (snd (backup_file k a)) (snd (backup_file k b))"
  using assms shadowed_fields[OF assms]
  by (simp add: backup_file_def Let_def shadowed_update split: option.splits)

lemma delete_file_shadowed:
  assumes "shadowed before a b"
  shows "fst (delete_file p a) = fst (delete_file p b)
     \<and> shadowed before (snd (delete_file p a)) (snd (delete_file p b))"
proof -
  let ?k = "physical_path (normalize p)"
  have bk: "shadowed before (snd (backup_file ?k a)) (snd (backup_file ?k b))"
    by (rule backup_file_shadowed[OF assms])
  show ?thesis
    using assms shadowed_fields[OF assms] bk
    by (simp add: delete_file_def Let_def free_blocks_of_def backup_file_fields
        shadowed_save shadowed_update split: option.splits child_ref.splits)
qed

lemma write_existing_shadowed:
  assumes "shadowed before a b"
  shows "fst (write_existing k c e a) = fst (write_existing k c e b)
     \<and> shadowed before (snd (write_existing k c e a)) (snd (write_existing k c e b))"
proof (cases e)
  case (DirRef sub)
  then show ?thesis using assms by (simp add: write_existing_def)
next
  case (FileRef file_id)
  note f = shadowed_fields[OF assms]
  show ?thesis
  proof (cases "map_of (file_table b) file_id")
    case None
    then show ?thesis using assms f by (simp add: write_existing_def FileRef)
  next
    case (Some r)
    let ?tail = "\<lambda>s4. case write_text (disk s4) (physical_path k) c of
                    None \<Rightarrow> (False, s4)
                  | Some d \<Rightarrow>
                      let s5 = s4\<lparr>disk := d\<rparr>; file_size = int (length c) in
                      if block_size s5 = 0 then (False, s5)
                      else
                        let (allocated_blocks, s6) =
                               allocate_blocks (blocks_needed file_size (block_size s5)) s5;
                            s7 = s6\<lparr>file_table := AList.update file_id
                                     (r\<lparr>fsize := file_size, blocks := allocated_blocks,
                                        checksum := calculate_checksum (disk s6) (physical_path k)\<rparr>)
                                     (file_table s6)\<rparr>;
                            s8 = add_to_cache k c s7
                        in (True, save_metadata s8)"
    let ?a4 = "snd (backup_file (physical_path k) (free_blocks_of (blocks r) a))"
    let ?b4 = "snd (backup_file (physical_path k) (free_blocks_of (blocks r) b))"
    have fr: "shadowed before (free_blocks_of (blocks r) a) (free_blocks_of (blocks r) b)"
      using assms f by (simp add: free_blocks_of_def shadowed_update)
    have bk: "shadowed before ?a4 ?b4"
      by (rule backup_file_shadowed[OF fr])
    have ua: "write_existing k c e a = ?tail ?a4"
      using Some f by (simp add: write_existing_def FileRef Let_def)
    have ub: "write_existing k c e b = ?tail ?b4"
      using Some by (simp add: write_existing_def FileRef Let_def)
    have tail: "fst (?tail x) = fst (?tail y) \<and> shadowed before (snd (?tail x)) (snd (?tail y))"
      if "shadowed before x y" for x y
      using that shadowed_fields[OF that]
      by (simp add: Let_def split_beta allocate_blocks_def add_to_cache_def
          shadowed_save shadowed_update split: option.splits list.splits)
    show ?thesis
      unfolding ua ub by (rule tail[OF bk])
  qed
qed

lemma create_directory_depth_shadowed:
  "shadowed before a b \<Longrightarrow>
   fst (create_directory_depth n p a) = fst (create_directory_depth n p b)
   \<and> shadowed before (snd (create_directory_depth n p a)) (snd (create_directory_depth n p b))"
proof (induction n arbitrary: p a b)
  case 0
  then show ?case by simp
next
  case (Suc n)
  note f = shadowed_fields[OF Suc.prems]
  let ?pth = "normalize p"
  let ?parent_dir = "dirname ?pth"
  let ?ra = "(if ?parent_dir \<noteq> [] \<and> \<not> has_key (directory_structure a) ?parent_dir
              then create_directory_depth n ?parent_dir a else (True, a))"
  let ?rb = "(if ?parent_dir \<noteq> [] \<and> \<not> has_key (directory_structure b) ?parent_dir
              then create_directory_depth n ?parent_dir b else (True, b))"
  have r: "fst ?ra = fst ?rb \<and> shadowed before (snd ?ra) (snd ?rb)"
    using Suc.IH[OF Suc.prems, of ?parent_dir] Suc.prems f by simp
  obtain ok sa where ra: "?ra = (ok, sa)" by (cases ?ra)
  obtain ok' sb where rb: "?rb = (ok', sb)" by (cases ?rb)
  from r ra rb have ok: "ok' = ok" and sh: "shadowed before sa sb" by simp_all
  let ?tail = "\<lambda>s1. if \<not> ok then (False, s1)
           else
             (case makedirs (disk s1) (physical_path ?pth) of
                None \<Rightarrow> (False, s1)
              | Some d \<Rightarrow>
                  let s2 = s1\<lparr>disk := d,
                              directory_structure :=
                                AList.update ?pth \<lparr>contents = []\<rparr> (directory_structure s1)\<rparr>
                  in if ?pth \<noteq> ''/''
                     then (case map_of (directory_structure s2) ?parent_dir of
                             None \<Rightarrow> (False, s2)
                           | Some parent \<Rightarrow>
                               (True, save_metadata (s2\<lparr>directory_structure :=
                                  AList.update ?parent_dir
                                    (parent\<lparr>contents :=
                                       AList.update (basename ?pth) (DirRef ?pth) (contents parent)\<rparr>)
                                    (directory_structure s2)\<rparr>)))
                     else (True, save_metadata s2))"
  have ua: "create_directory_depth (Suc n) p a =
     (if has_key (directory_structure a) ?pth then (False, a) else ?tail sa)"
    by (simp only: create_directory_depth.simps Let_def ra prod.case)
  have ub: "create_directory_depth (Suc n) p b =
     (if has_key (directory_structure b) ?pth then (False, b) else ?tail sb)"
    by (simp only: create_directory_depth.simps Let_def rb prod.case ok)
  have tail: "fst (?tail sa) = fst (?tail sb) \<and> shadowed before (snd (?tail sa)) (snd (?tail sb))"
    using sh shadowed_fields[OF sh]
    by (simp add: Let_def shadowed_save shadowed_update split: option.splits)
  show ?case
    unfolding ua ub using Suc.prems f tail by simp
qed

lemma delete_directory_depth_shadowed:
  "shadowed before a b \<Longrightarrow>
   fst (delete_directory_depth n p recursive a) = fst (delete_directory_depth n p recursive b)
   \<and> shadowed before (snd (delete_directory_depth n p recursive a))
        (snd (delete_directory_depth n p recursive b))"
proof (induction n arbitrary: p recursive a b)
  case 0
  then show ?case by simp
next
  case (Suc n)
  note f = shadowed_fields[OF Suc.prems]
  let ?pth = "normalize p"
  let ?step = "\<lambda>(name, entry) s.
                 case entry of
                   FileRef file_id \<Rightarrow> snd (delete_file (path_join ?pth name) s)
                 | DirRef subdir_path \<Rightarrow> snd (delete_directory_depth n subdir_path True s)"
  have walk: "shadowed before (fold ?step xs x) (fold ?step xs y)"
    if "shadowed before x y" for xs x y
    using that
  proof (induction xs arbitrary: x y)
    case Nil
    then show ?case by simp
  next
    case (Cons e xs)
    obtain name entry where e: "e = (name, entry)" by (cases e)
    have "shadowed before (?step e x) (?step e y)"
      using delete_file_shadowed[OF Cons.prems] Suc.IH[OF Cons.prems]
      by (simp add: e split: child_ref.splits)
    from Cons.IH[OF this] show ?case by simp
  qed
  let ?tail = "\<lambda>s1.
          (case map_of (directory_structure s1) (dirname ?pth) of
             None \<Rightarrow> (False, s1)
           | Some parent \<Rightarrow>
               let s2 = s1\<lparr>directory_structure := AList.update (dirname ?pth)
                            (parent\<lparr>contents := AList.delete (basename ?pth) (contents parent)\<rparr>)
                            (directory_structure s1)\<rparr>
               in if \<not> has_key (directory_structure s2) ?pth then (False, s2)
                  else
                    let s3 = s2\<lparr>directory_structure :=
                                 AList.delete ?pth (directory_structure s2)\<rparr>;
                        physical = physical_path ?pth
                    in if exists_path (disk s3) physical
                       then (case os_rmdir (disk s3) physical of
                               Some d \<Rightarrow> (True, save_metadata (s3\<lparr>disk := d\<rparr>))
                             | None \<Rightarrow>
                                 if recursive
                                 then (case rmtree (disk s3) physical of
                                         None \<Rightarrow> (False, s3)
                                       | Some d \<Rightarrow> (True, save_metadata (s3\<lparr>disk := d\<rparr>)))
                                 else (True, save_metadata s3))
                       else (True, save_metadata s3))"
  let ?walked = "\<lambda>dir_entry s. if recursive then fold ?step (contents dir_entry) s else s"
  have unfold: "delete_directory_depth (Suc n) p recursive s =
     (if ?pth = ''/'' then (False, s)
      else
        case map_of (directory_structure s) ?pth of
          None \<Rightarrow> (False, s)
        | Some dir_entry \<Rightarrow>
            if contents dir_entry \<noteq> [] \<and> \<not> recursive then (False, s)
            else ?tail (?walked dir_entry s))" for s
    by (simp only: delete_directory_depth.simps Let_def)
  have tail: "fst (?tail x) = fst (?tail y) \<and> shadowed before (snd (?tail x)) (snd (?tail y))"
    if "shadowed before x y" for x y
    using that shadowed_fields[OF that]
    by (simp add: Let_def shadowed_save shadowed_update split: option.splits)
  have walked: "shadowed before (?walked e a) (?walked e b)" for e
    using walk[OF Suc.prems] Suc.prems by simp
  show ?case
  proof (cases "?pth = ''/''")
    case True
    then show ?thesis using Suc.prems by (simp add: unfold)
  next
    case nonroot: False
    show ?thesis
    proof (cases "map_of (directory_structure b) ?pth")
      case None
      then show ?thesis using Suc.prems f nonroot by (simp add: unfold)
    next
      case (Some dir_entry)
      then have some_a: "map_of (directory_structure a) ?pth = Some dir_entry"
        using f by simp
      show ?thesis
      proof (cases "contents dir_entry \<noteq> [] \<and> \<not> recursive")
        case True
        then show ?thesis using Suc.prems f nonroot Some by (simp add: unfold)
      next
        case cond: False
        have ea: "delete_directory_depth (Suc n) p recursive a = ?tail (?walked dir_entry a)"
          by (subst unfold)
            (simp only: if_not_P[OF nonroot] if_not_P[OF cond] some_a option.case)
        have eb: "delete_directory_depth (Suc n) p recursive b = ?tail (?walked dir_entry b)"
          by (subst unfold)
            (simp only: if_not_P[OF nonroot] if_not_P[OF cond] Some option.case)
        show ?thesis
          unfolding ea eb by (rule tail[OF walked])
      qed
    qed
  qed
qed

lemma write_file_shadowed:
  assumes "shadowed before a b"
  shows "fst (write_file p c a) = fst (write_file p c b)
     \<and> shadowed before (snd (write_file p c a)) (snd (write_file p c b))"
proof -
  let ?pth = "normalize p"
  let ?prelude = "\<lambda>s. if \<not> has_key (directory_structure (invalidate_cache ?pth s)) (dirname ?pth)
                       then snd (create_directory (dirname ?pth) (invalidate_cache ?pth s))
                       else invalidate_cache ?pth s"
  let ?tail = "\<lambda>s2. case map_of (directory_structure s2) (dirname ?pth) of
                        None \<Rightarrow> (False, s2)
                      | Some parent \<Rightarrow>
                          (case map_of (contents parent) (basename ?pth) of
                             None \<Rightarrow> create_file ?pth c s2
                           | Some file_entry \<Rightarrow> write_existing ?pth c file_entry s2)"
  have unfold: "write_file p c s = ?tail (?prelude s)" for s
    unfolding write_file_def Let_def by (rule refl)
  have inv: "shadowed before (invalidate_cache ?pth a) (invalidate_cache ?pth b)"
    using assms shadowed_fields[OF assms] by (simp add: invalidate_cache_def shadowed_update)
  have pre: "shadowed before (?prelude a) (?prelude b)"
    using inv shadowed_fields[OF inv] create_directory_depth_shadowed[OF inv]
    by (simp add: create_directory_def)
  have tail: "fst (?tail x) = fst (?tail y) \<and> shadowed before (snd (?tail x)) (snd (?tail y))"
    if "shadowed before x y" for x y
    using that shadowed_fields[OF that] create_file_shadowed[OF that]
      write_existing_shadowed[OF that]
    by (simp split: option.splits)
  show ?thesis
    unfolding unfold by (rule tail[OF pre])
qed

text \<open>
  Claim C10. On a host where every call of \<^verbatim>\<open>_save_metadata\<close> raises, each of
  \<^verbatim>\<open>create_file\<close>, \<^verbatim>\<open>write_file\<close>, \<^verbatim>\<open>delete_file\<close>, \<^verbatim>\<open>create_directory\<close> and
  \<^verbatim>\<open>delete_directory\<close> returns what it returns when nothing fails (\<open>True\<close> where it
  succeeds), and leaves the manager's fields and the tree as it leaves them then; the
  metadata file is left as it was, or cut short: the new state is not persisted.
\<close>

theorem save_failure_swallowed:
  assumes "save_raises s"
  shows "swallowed (create_file p c) s \<and> swallowed (write_file p c) s
     \<and> swallowed (delete_file p) s \<and> swallowed (create_directory p) s
     \<and> swallowed (delete_directory p recursive) s"
proof -
  have sh: "shadowed (metadata_file s) s (s\<lparr>save_fault := NoFault\<rparr>)"
    using assms by (simp add: shadowed_def same_memory_def not_persisted_def)
  show ?thesis
    using create_file_shadowed[OF sh, of p c] write_file_shadowed[OF sh, of p c]
      delete_file_shadowed[OF sh, of p] create_directory_depth_shadowed[OF sh, of recursion_limit p]
      delete_directory_depth_shadowed[OF sh, of recursion_limit p recursive]
    by (simp add: swallowed_def shadowed_def create_directory_def delete_directory_def)
qed

lemma save_metadata_dump_fails:
  "save_fault s = DumpFails \<Longrightarrow> metadata_file (save_metadata s) = Some Partial"
  by (cases "metadata_file s") (simp_all add: save_metadata_def)

lemma dump_fails_fields:
  "block_size dump_fails_state = 4096" "free_blocks dump_fails_state = py_range 1 1001"
  "file_table dump_fails_state = []"
  "directory_structure dump_fails_state = [(''/'', \<lparr>contents = []\<rparr>)]"
  "disk dump_fails_state = []" "save_fault dump_fails_state = DumpFails"
  by (simp_all add: dump_fails_state_def fresh_fields)

theorem save_failure_swallowed_witness:
  "save_raises dump_fails_state
   \<and> swallowed (create_file ''/a.txt'' ''hi'') dump_fails_state
   \<and> swallowed (create_directory ''/docs'') dump_fails_state
   \<and> fst (create_file ''/a.txt'' ''hi'' dump_fails_state)
   \<and> map (\<lambda>(file_id, r). (path r, fsize r))
        (file_table (snd (create_file ''/a.txt'' ''hi'' dump_fails_state))) = [(''/a.txt'', 2)]
   \<and> metadata_file (snd (create_file ''/a.txt'' ''hi'' dump_fails_state)) = Some Partial
   \<and> fst (create_directory ''/docs'' dump_fails_state)
   \<and> metadata_file (snd (create_directory ''/docs'' dump_fails_state)) = Some Partial"
proof -
  have h: "save_raises dump_fails_state"
    by (simp add: save_raises_def dump_fails_fields)
  note c = save_failure_swallowed[OF h]
  have c1: "swallowed (create_file ''/a.txt'' ''hi'') dump_fails_state" using c by simp
  have c2: "swallowed (create_directory ''/docs'') dump_fails_state" using c by simp
  have e1: "fst (create_file ''/a.txt'' ''hi'' dump_fails_state)
     \<and> map (\<lambda>(file_id, r). (path r, fsize r))
        (file_table (snd (create_file ''/a.txt'' ''hi'' dump_fails_state))) = [(''/a.txt'', 2)]
     \<and> metadata_file (snd (create_file ''/a.txt'' ''hi'' dump_fails_state)) = Some Partial"
    by (simp add: dump_fails_fields create_file_def path_defs disk_defs allocate_blocks_def
        blocks_needed_def length_py_range split_beta save_metadata_dump_fails Let_def)
  have e2: "fst (create_directory ''/docs'' dump_fails_state)
     \<and> metadata_file (snd (create_directory ''/docs'' dump_fails_state)) = Some Partial"
    by (simp add: dump_fails_fields create_directory_unfold path_defs disk_defs
        save_metadata_dump_fails Let_def)
  show ?thesis using h c1 c2 e1 e2 by simp
qed

subsection \<open>Reading back what was written\<close>





















subsection \<open>Recovery of a corrupted file\<close>












end
